theory Spec2Isabelle
  imports Main
begin

section \<open>The Comdirect client: session state, observers and token refresh\<close>

text \<open>
  A shallow embedding of \<^verbatim>\<open>src/comdirect_client/client.py\<close> (class
  \<^verbatim>\<open>ComdirectClient\<close>). The object's fields are a record that every method takes and
  returns. What the methods read from the outside world (HTTP answers, how long an await takes,
  whether the token file can be written) is an explicit argument; what they do to the outside
  world (observer calls, sleeps, poll requests, the token file) is recorded in the record.

  Conventions.
  \<^item> Time is an integer number of milliseconds; \<^verbatim>\<open>time.time()\<close> and
    \<^verbatim>\<open>utc_now()\<close> both read the field \<open>clock\<close>, which only moves forward, by
    the duration of each await.
  \<^item> An exception is a value of type \<open>error\<close>; a method that may raise returns
    \<open>error + 'a\<close> together with the state it leaves behind. The errors are the subclasses of
    Python's \<^verbatim>\<open>Exception\<close>; cancellation of the calling task
    (\<^verbatim>\<open>asyncio.CancelledError\<close>, not an \<^verbatim>\<open>Exception\<close>) is modelled only for
    the refresh task, through its status.
  \<^item> JSON bodies are records of optional fields: \<open>None\<close> is an absent key (the lookup
    raises \<^verbatim>\<open>KeyError\<close>); a present field has the type its use in the code expects.
  \<^item> Each method runs to completion before the next one starts: the interleaving of the
    refresh task with foreground calls is at the granularity of one method call or one loop
    iteration, so \<^verbatim>\<open>_refresh_lock\<close> is always free when it is acquired.
\<close>

subsection \<open>Data\<close>

type_synonym time = int

datatype error =
    AuthenticationError
  | NetworkTimeoutError
  | SessionActivationError
  | TANTimeoutError
  | RuntimeError
  | KeyError
  | ValueError
  | TransportError

text \<open>What an \<^verbatim>\<open>httpx\<close> request gives: \<^verbatim>\<open>httpx.TimeoutException\<close>, another
  transport failure, or a response with its status code and its body (\<open>None\<close>: the body is
  not JSON, \<^verbatim>\<open>response.json()\<close> raises a \<^verbatim>\<open>ValueError\<close>).\<close>

datatype 'b http_result = Timeout | Transport_failure | Response nat "'b option"

record token_body =
  b_access_token :: "string option"
  b_refresh_token :: "string option"
  b_expires_in :: "int option"

datatype pyval = Py_str string | Py_int int

type_synonym payload = "(string \<times> pyval) list"

text \<open>An observer either returns or raises an \<^verbatim>\<open>Exception\<close>.\<close>

datatype cb_outcome = Returns | Raises

datatype event =
    Tan_status string payload
  | Reauth_required string
  | Sleep nat
  | Poll_request string time

datatype task_status = Running | Cancel_requested | Done

datatype swagger_client = SwaggerClient

record client =
  s_access_token :: "string option"
  s_refresh_token :: "string option"
  s_token_expiry :: "time option"
  s_refresh_task :: "nat option"
  s_bravado_client :: "swagger_client option"
  reauth_callback :: "(string \<Rightarrow> cb_outcome) option"
  tan_status_callback :: "(string \<Rightarrow> payload \<Rightarrow> cb_outcome) option"
  token_refresh_threshold :: int
  tasks :: "task_status list"
  clock :: time
  trace :: "event list"
  observer_errors :: "string list"
  storage_path :: bool
  token_file :: "(string \<times> string \<times> time) option"

text \<open>
  \<open>tasks\<close> is the table of the \<^verbatim>\<open>asyncio\<close> tasks created so far, by index;
  \<open>s_refresh_task\<close> is the index held in \<^verbatim>\<open>self._refresh_task\<close>.
  \<open>trace\<close> is what the client did that an outside party can see, in order;
  \<open>observer_errors\<close> are the log lines written when an observer raised.
  \<open>storage_path\<close> tells whether a token file is configured and \<open>token_file\<close> is its
  content.
\<close>

subsection \<open>Python helpers\<close>

text \<open>Truth value of an \<^verbatim>\<open>Optional[str]\<close>: \<^verbatim>\<open>None\<close> and the empty string
  are false.\<close>

fun truthy :: "string option \<Rightarrow> bool" where
  "truthy None = False"
| "truthy (Some v) = (v \<noteq> [])"

text \<open>\<^verbatim>\<open>response.raise_for_status()\<close> of httpx raises
  \<^verbatim>\<open>HTTPStatusError\<close> unless the status is 2xx.\<close>

definition is_success :: "nat \<Rightarrow> bool" where
  "is_success code = (200 \<le> code \<and> code < 300)"

definition utc_now :: "client \<Rightarrow> time" where
  "utc_now s = clock s"

text \<open>An await that takes \<open>d\<close> milliseconds.\<close>

definition elapse :: "nat \<Rightarrow> client \<Rightarrow> client" where
  "elapse d s = s\<lparr>clock := clock s + int d\<rparr>"

text \<open>\<^verbatim>\<open>await asyncio.sleep(d)\<close>, \<open>d\<close> in milliseconds: the task resumes after
  \<open>d\<close> milliseconds or later (\<open>late\<close> is the delay of the event loop).\<close>

definition sleep :: "nat \<Rightarrow> nat \<Rightarrow> client \<Rightarrow> client" where
  "sleep d late s = (elapse (d + late) s)\<lparr>trace := trace s @ [Sleep d]\<rparr>"

subsection \<open>Tasks\<close>

definition task_done :: "client \<Rightarrow> nat \<Rightarrow> bool" where
  "task_done s i = (i < length (tasks s) \<and> tasks s ! i = Done)"

text \<open>\<^verbatim>\<open>Task.cancel()\<close>: a request; a finished task ignores it.\<close>

definition task_cancel :: "nat \<Rightarrow> client \<Rightarrow> client" where
  "task_cancel i s =
     (if i < length (tasks s) \<and> tasks s ! i \<noteq> Done
      then s\<lparr>tasks := (tasks s)[i := Cancel_requested]\<rparr> else s)"

text \<open>\<^verbatim>\<open>asyncio.create_task\<close>: a new entry of the table, returned by index.\<close>

definition create_task :: "client \<Rightarrow> nat \<times> client" where
  "create_task s = (length (tasks s), s\<lparr>tasks := tasks s @ [Running]\<rparr>)"

text \<open>\<^verbatim>\<open>if self._refresh_task and not self._refresh_task.done(): self._refresh_task.cancel()\<close>\<close>

definition cancel_refresh_task :: "client \<Rightarrow> client" where
  "cancel_refresh_task s =
     (case s_refresh_task s of
        None \<Rightarrow> s
      | Some i \<Rightarrow> if \<not> task_done s i then task_cancel i s else s)"

definition start_refresh_task :: "client \<Rightarrow> client" where
  "start_refresh_task s =
     (let s1 = cancel_refresh_task s;
          (i, s2) = create_task s1
      in s2\<lparr>s_refresh_task := Some i\<rparr>)"

definition clear_tokens :: "client \<Rightarrow> client" where
  "clear_tokens s =
     cancel_refresh_task
       (s\<lparr>s_access_token := None, s_refresh_token := None, s_token_expiry := None\<rparr>)"

text \<open>\<^verbatim>\<open>close()\<close>: cancels the refresh task (closing the HTTP client is not modelled).\<close>

definition close :: "client \<Rightarrow> client" where
  "close s = cancel_refresh_task s"

subsection \<open>Callback dispatcher\<close>

text \<open>
  Each notification the dispatcher is asked to emit is appended to the trace; it is handed to
  the observer when one is registered and written to the log otherwise. An observer that
  raises leaves a line in the error log and nothing else.
\<close>

definition invoke_reauth_callback :: "string \<Rightarrow> client \<Rightarrow> client" where
  "invoke_reauth_callback reason s =
     (let s1 = clear_tokens s;
          s2 = s1\<lparr>trace := trace s1 @ [Reauth_required reason]\<rparr>
      in case reauth_callback s2 of
           Some cb \<Rightarrow>
             (case cb reason of
                Returns \<Rightarrow> s2
              | Raises \<Rightarrow>
                  s2\<lparr>observer_errors := observer_errors s2 @ [''Error in reauth callback'']\<rparr>)
         | None \<Rightarrow> s2)"

definition invoke_tan_status_callback :: "string \<Rightarrow> payload \<Rightarrow> client \<Rightarrow> client" where
  "invoke_tan_status_callback status data s =
     (let s1 = s\<lparr>trace := trace s @ [Tan_status status data]\<rparr>
      in case tan_status_callback s1 of
           Some cb \<Rightarrow>
             (case cb status data of
                Returns \<Rightarrow> s1
              | Raises \<Rightarrow>
                  s1\<lparr>observer_errors :=
                       observer_errors s1 @ [''Error in TAN status callback'']\<rparr>)
         | None \<Rightarrow> s1)"

subsection \<open>Token storage\<close>

text \<open>
  Modelled from the spec: \<^verbatim>\<open>TokenPersistence.save_tokens\<close>
  (\<^verbatim>\<open>token_storage.py\<close> is not among the sources). Save overwrites the whole file with
  the triple; without a storage path it does nothing. \<open>writable = False\<close> is the case in
  which it raises \<^verbatim>\<open>TokenStorageError\<close>, the result \<open>None\<close>.
\<close>

definition save_tokens :: "bool \<Rightarrow> string \<Rightarrow> string \<Rightarrow> time \<Rightarrow> client \<Rightarrow> client option" where
  "save_tokens writable a r e s =
     (if \<not> storage_path s then Some s
      else if writable then Some (s\<lparr>token_file := Some (a, r, e)\<rparr>)
      else None)"

definition save_tokens_to_storage :: "bool \<Rightarrow> client \<Rightarrow> client" where
  "save_tokens_to_storage writable s =
     (case (s_access_token s, s_refresh_token s, s_token_expiry s) of
        (Some a, Some r, Some e) \<Rightarrow>
          (if a \<noteq> [] \<and> r \<noteq> []
           then (case save_tokens writable a r e s of Some s' \<Rightarrow> s' | None \<Rightarrow> s)
           else s)
      | _ \<Rightarrow> s)"

subsection \<open>Authentication status and the API accessor\<close>

definition is_authenticated :: "client \<Rightarrow> bool" where
  "is_authenticated s = (s_access_token s \<noteq> None \<and> s_token_expiry s \<noteq> None)"

text \<open>\<^verbatim>\<open>_initialize_bravado_client\<close>: \<open>load\<close> is what building the client from the
  Swagger file gives.\<close>

definition initialize_bravado_client :: "error + swagger_client \<Rightarrow> client \<Rightarrow> error + client" where
  "initialize_bravado_client load s =
     (if s_bravado_client s \<noteq> None then Inr s
      else case load of
             Inl e \<Rightarrow> Inl e
           | Inr c \<Rightarrow> Inr (s\<lparr>s_bravado_client := Some c\<rparr>))"

text \<open>The property \<^verbatim>\<open>api\<close>: the value returned is \<^verbatim>\<open>self._bravado_client\<close>.\<close>

definition api :: "error + swagger_client \<Rightarrow> client \<Rightarrow> (error + swagger_client option) \<times> client" where
  "api load s =
     (if \<not> is_authenticated s then (Inl RuntimeError, s)
      else if s_bravado_client s = None
      then (case initialize_bravado_client load s of
              Inl e \<Rightarrow> (Inl e, s)
            | Inr s' \<Rightarrow> (Inr (s_bravado_client s'), s'))
      else (Inr (s_bravado_client s), s))"

subsection \<open>Refresh operation\<close>

record refresh_env =
  r_latency :: nat
  r_post :: "token_body http_result"
  r_writable :: bool

definition refresh_token :: "refresh_env \<Rightarrow> client \<Rightarrow> (error + bool) \<times> client" where
  "refresh_token env s =
     (if \<not> truthy (s_refresh_token s) then (Inr False, s)
      else
        let s0 = elapse (r_latency env) s in
        case r_post env of
          Timeout \<Rightarrow> (Inr False, s0)
        | Transport_failure \<Rightarrow> (Inl TransportError, s0)
        | Response code body \<Rightarrow>
            if code = 401 then (Inr False, invoke_reauth_callback ''token_refresh_failed'' s0)
            else if \<not> is_success code then (Inr False, s0)
            else
              (case body of
                 None \<Rightarrow> (Inl ValueError, s0)
               | Some data \<Rightarrow>
                   (case b_access_token data of
                      None \<Rightarrow> (Inl KeyError, s0)
                    | Some a \<Rightarrow>
                        let s1 = s0\<lparr>s_access_token := Some a\<rparr> in
                        (case b_refresh_token data of
                           None \<Rightarrow> (Inl KeyError, s1)
                         | Some r \<Rightarrow>
                             let s2 = s1\<lparr>s_refresh_token := Some r\<rparr> in
                             (case b_expires_in data of
                                None \<Rightarrow> (Inl KeyError, s2)
                              | Some expires_in \<Rightarrow>
                                  let s3 = s2\<lparr>s_token_expiry :=
                                                Some (utc_now s2 + expires_in * 1000)\<rparr>
                                  in (Inr True, save_tokens_to_storage (r_writable env) s3))))))"

subsection \<open>Authentication steps\<close>

text \<open>What a call through a Bravado client gives: \<^verbatim>\<open>bravado.exception.HTTPError\<close> with
  its status code, any other exception (building the client included), or the result.\<close>

datatype 'a bravado_result = Http_error nat | Other_exception | Result 'a

text \<open>
  The value of a response header, by what \<^verbatim>\<open>json.loads\<close> makes of it: a text that
  is not a JSON object (the empty text included), or an object with the values found under
  \<^verbatim>\<open>"id"\<close>, \<^verbatim>\<open>"typ"\<close> and \<^verbatim>\<open>"link"/"href"\<close> (\<open>None\<close>: no such key).
\<close>

datatype header_value = Text string | Auth_info "string option" "string option" "string option"

record tan_response =
  resp_headers :: "string \<Rightarrow> header_value option"
  resp_body :: string

text \<open>One round of the polling loop: how late the sleep returns, how long the request takes,
  and its answer; the body of an answer is the value of \<^verbatim>\<open>data.get("status")\<close>.\<close>

record poll =
  p_late :: nat
  p_latency :: nat
  p_get :: "string option http_result"

record auth_env =
  e_latency1 :: nat
  e_post1 :: "token_body http_result"
  e_latency2 :: nat
  e_sessions :: "string list bravado_result"
  e_latency3 :: nat
  e_challenge :: "tan_response bravado_result"
  e_polls :: "nat \<Rightarrow> poll"
  e_latency4b :: nat
  e_activation :: "unit bravado_result"
  e_latency5 :: nat
  e_post5 :: "token_body http_result"
  e_writable :: bool

definition step1_password_credentials ::
  "nat \<Rightarrow> token_body http_result \<Rightarrow> client \<Rightarrow> (error + string) \<times> client" where
  "step1_password_credentials latency post s =
     (let s0 = elapse latency s in
      case post of
        Timeout \<Rightarrow> (Inl NetworkTimeoutError, s0)
      | Transport_failure \<Rightarrow> (Inl TransportError, s0)
      | Response code body \<Rightarrow>
          if code = 401 then (Inl AuthenticationError, s0)
          else if \<not> is_success code then (Inl AuthenticationError, s0)
          else
            (case body of
               None \<Rightarrow> (Inl ValueError, s0)
             | Some data \<Rightarrow>
                 (case b_access_token data of
                    None \<Rightarrow> (Inl KeyError, s0)
                  | Some access_token \<Rightarrow> (Inr access_token, s0))))"

text \<open>Every exception of step 2, whatever its class, leaves as an
  \<^verbatim>\<open>AuthenticationError\<close>.\<close>

definition step2_session_status ::
  "nat \<Rightarrow> string list bravado_result \<Rightarrow> client \<Rightarrow> (error + string) \<times> client" where
  "step2_session_status latency call s =
     (let s0 = elapse latency s in
      case call of
        Http_error code \<Rightarrow> (Inl AuthenticationError, s0)
      | Other_exception \<Rightarrow> (Inl AuthenticationError, s0)
      | Result sessions \<Rightarrow>
          (case sessions of
             [] \<Rightarrow> (Inl AuthenticationError, s0)
           | session_uuid # _ \<Rightarrow> (Inr session_uuid, s0)))"

definition step3_tan_challenge ::
  "nat \<Rightarrow> tan_response bravado_result \<Rightarrow> client \<Rightarrow>
     (error + string \<times> string \<times> string) \<times> client" where
  "step3_tan_challenge latency call s =
     (let s0 = elapse latency s in
      case call of
        Http_error code \<Rightarrow> (Inl AuthenticationError, s0)
      | Other_exception \<Rightarrow> (Inl AuthenticationError, s0)
      | Result response \<Rightarrow>
          (case resp_headers response ''x-once-authentication-info'' of
             None \<Rightarrow> (Inl AuthenticationError, s0)
           | Some (Text t) \<Rightarrow> (Inl AuthenticationError, s0)
           | Some (Auth_info None typ href) \<Rightarrow> (Inl AuthenticationError, s0)
           | Some (Auth_info (Some challenge_id) None href) \<Rightarrow> (Inl AuthenticationError, s0)
           | Some (Auth_info (Some challenge_id) (Some tan_type) None) \<Rightarrow>
               (Inl AuthenticationError, s0)
           | Some (Auth_info (Some challenge_id) (Some tan_type) (Some poll_url)) \<Rightarrow>
               (Inr (challenge_id, tan_type, poll_url),
                invoke_tan_status_callback ''requested''
                  [(''tan_type'', Py_str tan_type), (''challenge_id'', Py_str challenge_id),
                   (''timeout_seconds'', Py_int 60)] s0)))"

text \<open>
  The \<^verbatim>\<open>while\<close> loop of step 4; \<open>n\<close> counts the rounds already made. Timeout and
  interval are the source's 60 and 1 seconds. The loop ends because every round sleeps for a
  second at least.
\<close>

function poll_loop ::
  "(nat \<Rightarrow> poll) \<Rightarrow> string \<Rightarrow> string \<Rightarrow> time \<Rightarrow> nat \<Rightarrow> client \<Rightarrow> (error + unit) \<times> client" where
  "poll_loop polls poll_url tan_type start_time n s =
     (if clock s - start_time < 60 * 1000 then
        (let s1 = sleep (1 * 1000) (p_late (polls n)) s;
             elapsed = (clock s1 - start_time) div 1000;
             remaining = 60 - elapsed;
             s2 = elapse (p_latency (polls n))
                    (s1\<lparr>trace := trace s1 @ [Poll_request poll_url (clock s1)]\<rparr>)
         in case p_get (polls n) of
              Timeout \<Rightarrow> poll_loop polls poll_url tan_type start_time (Suc n) s2
            | Transport_failure \<Rightarrow> (Inl TransportError, s2)
            | Response code body \<Rightarrow>
                if code = 200 then
                  (case body of
                     None \<Rightarrow> (Inl ValueError, s2)
                   | Some status \<Rightarrow>
                       if status = Some ''AUTHENTICATED'' then
                         (Inr (),
                          invoke_tan_status_callback ''approved''
                            [(''tan_type'', Py_str tan_type), (''elapsed_seconds'', Py_int elapsed)] s2)
                       else if status = Some ''PENDING'' then
                         poll_loop polls poll_url tan_type start_time (Suc n)
                           (if elapsed mod 10 = 0 \<and> elapsed > 0
                            then invoke_tan_status_callback ''pending''
                                   [(''tan_type'', Py_str tan_type), (''timeout_seconds'', Py_int 60),
                                    (''elapsed_seconds'', Py_int elapsed),
                                    (''remaining_seconds'', Py_int remaining)] s2
                            else s2)
                       else (Inl AuthenticationError, s2))
                else poll_loop polls poll_url tan_type start_time (Suc n) s2)
      else
        (Inl TANTimeoutError,
         invoke_tan_status_callback ''timeout''
           [(''tan_type'', Py_str tan_type), (''timeout_seconds'', Py_int 60)] s))"
  by pat_completeness auto
termination
  by (relation "measure (\<lambda>(polls, poll_url, tan_type, start_time, n, s).
                  nat (60 * 1000 - (clock s - start_time)))")
     (auto simp: sleep_def elapse_def invoke_tan_status_callback_def Let_def
           split: option.splits cb_outcome.splits)

declare poll_loop.simps [simp del]

definition step4_poll_tan_approval ::
  "(nat \<Rightarrow> poll) \<Rightarrow> string \<Rightarrow> string \<Rightarrow> client \<Rightarrow> (error + unit) \<times> client" where
  "step4_poll_tan_approval polls poll_url tan_type s =
     (let start_time = clock s;
          s0 = invoke_tan_status_callback ''pending''
                 [(''tan_type'', Py_str tan_type), (''timeout_seconds'', Py_int 60),
                  (''elapsed_seconds'', Py_int 0)] s
      in poll_loop polls poll_url tan_type start_time 0 s0)"

definition step4b_activate_session ::
  "nat \<Rightarrow> unit bravado_result \<Rightarrow> client \<Rightarrow> (error + unit) \<times> client" where
  "step4b_activate_session latency call s =
     (let s0 = elapse latency s in
      case call of
        Http_error code \<Rightarrow>
          if code = 422 then (Inl SessionActivationError, s0)
          else (Inl SessionActivationError, s0)
      | Other_exception \<Rightarrow> (Inl SessionActivationError, s0)
      | Result u \<Rightarrow> (Inr (), s0))"

definition step5_secondary_token ::
  "nat \<Rightarrow> token_body http_result \<Rightarrow> bool \<Rightarrow> client \<Rightarrow> (error + unit) \<times> client" where
  "step5_secondary_token latency post writable s =
     (let s0 = elapse latency s in
      case post of
        Timeout \<Rightarrow> (Inl NetworkTimeoutError, s0)
      | Transport_failure \<Rightarrow> (Inl TransportError, s0)
      | Response code body \<Rightarrow>
          if \<not> is_success code then (Inl AuthenticationError, s0)
          else
            (case body of
               None \<Rightarrow> (Inl ValueError, s0)
             | Some data \<Rightarrow>
                 (case b_access_token data of
                    None \<Rightarrow> (Inl KeyError, s0)
                  | Some a \<Rightarrow>
                      let s1 = s0\<lparr>s_access_token := Some a\<rparr> in
                      (case b_refresh_token data of
                         None \<Rightarrow> (Inl KeyError, s1)
                       | Some r \<Rightarrow>
                           let s2 = s1\<lparr>s_refresh_token := Some r\<rparr> in
                           (case b_expires_in data of
                              None \<Rightarrow> (Inl KeyError, s2)
                            | Some expires_in \<Rightarrow>
                                let s3 = s2\<lparr>s_token_expiry :=
                                              Some (utc_now s2 + expires_in * 1000)\<rparr>
                                in (Inr (), save_tokens_to_storage writable s3))))))"

subsection \<open>The authentication flow\<close>

text \<open>The \<^verbatim>\<open>except Exception\<close> of \<^verbatim>\<open>authenticate\<close>: clear the tokens, raise
  again.\<close>

definition auth_failed :: "error \<Rightarrow> client \<Rightarrow> (error + unit) \<times> client" where
  "auth_failed e s = (Inl e, clear_tokens s)"

definition authenticate :: "auth_env \<Rightarrow> client \<Rightarrow> (error + unit) \<times> client" where
  "authenticate env s =
     (case step1_password_credentials (e_latency1 env) (e_post1 env) s of
        (Inl e, s1) \<Rightarrow> auth_failed e s1
      | (Inr initial_token, s1) \<Rightarrow>
     (case step2_session_status (e_latency2 env) (e_sessions env) s1 of
        (Inl e, s2) \<Rightarrow> auth_failed e s2
      | (Inr session_uuid, s2) \<Rightarrow>
     (case step3_tan_challenge (e_latency3 env) (e_challenge env) s2 of
        (Inl e, s3) \<Rightarrow> auth_failed e s3
      | (Inr (tan_challenge_id, tan_type, tan_poll_url), s3) \<Rightarrow>
     (case step4_poll_tan_approval (e_polls env) tan_poll_url tan_type s3 of
        (Inl e, s4) \<Rightarrow> auth_failed e s4
      | (Inr u, s4) \<Rightarrow>
     (case step4b_activate_session (e_latency4b env) (e_activation env) s4 of
        (Inl e, s4b) \<Rightarrow> auth_failed e s4b
      | (Inr u, s4b) \<Rightarrow>
     (case step5_secondary_token (e_latency5 env) (e_post5 env) (e_writable env) s4b of
        (Inl e, s5) \<Rightarrow> auth_failed e s5
      | (Inr u, s5) \<Rightarrow> (Inr (), start_refresh_task s5)))))))"

subsection \<open>Refresh scheduler\<close>

record loop_env =
  l_late :: nat
  l_refresh :: refresh_env

definition task_finish :: "nat \<Rightarrow> client \<Rightarrow> client" where
  "task_finish i s = s\<lparr>tasks := (tasks s)[i := Done]\<rparr>"

text \<open>
  One round of \<^verbatim>\<open>_token_refresh_loop\<close>, run by task \<open>i\<close>. A task whose
  cancellation was requested gets \<^verbatim>\<open>CancelledError\<close> at its next await, before
  the refresh is done, and ends. A round that ends in \<^verbatim>\<open>break\<close> ends the task; any
  other round leaves it running.
\<close>

definition token_refresh_loop :: "nat \<Rightarrow> loop_env \<Rightarrow> client \<Rightarrow> client" where
  "token_refresh_loop i env s =
     (if \<not> i < length (tasks s) then s
      else case tasks s ! i of
        Done \<Rightarrow> s
      | Cancel_requested \<Rightarrow> task_finish i s
      | Running \<Rightarrow>
          (case s_token_expiry s of
             None \<Rightarrow> sleep (10 * 1000) (l_late env) s
           | Some expiry \<Rightarrow>
               let now = utc_now s;
                   refresh_time = expiry - token_refresh_threshold s * 1000;
                   sleep_duration = refresh_time - now;
                   s1 = (if sleep_duration > 0 then sleep (nat sleep_duration) (l_late env) s
                         else s)
               in case refresh_token (l_refresh env) s1 of
                    (Inl e, s2) \<Rightarrow> sleep (10 * 1000) (l_late env) s2
                  | (Inr success, s2) \<Rightarrow>
                      if \<not> success
                      then task_finish i (invoke_reauth_callback ''automatic_refresh_failed'' s2)
                      else s2))"

subsection \<open>Construction and restore\<close>

text \<open>
  Modelled from the spec: \<^verbatim>\<open>TokenPersistence.load_tokens\<close>
  (\<^verbatim>\<open>token_storage.py\<close> is not among the sources). A missing file or no storage path
  gives \<open>Some None\<close>, a well-formed file its triple; \<open>readable = False\<close> is the case in
  which it raises \<^verbatim>\<open>TokenStorageError\<close>, the result \<open>None\<close>.
\<close>

definition load_tokens :: "bool \<Rightarrow> client \<Rightarrow> (string \<times> string \<times> time) option option" where
  "load_tokens readable s =
     (if \<not> storage_path s then Some None
      else if readable then Some (token_file s)
      else None)"

definition restore_tokens_from_storage :: "bool \<Rightarrow> client \<Rightarrow> client" where
  "restore_tokens_from_storage readable s =
     (case load_tokens readable s of
        None \<Rightarrow> s
      | Some None \<Rightarrow> s
      | Some (Some (a, r, e)) \<Rightarrow>
          start_refresh_task
            (s\<lparr>s_access_token := Some a, s_refresh_token := Some r,
               s_token_expiry := Some e\<rparr>))"

text \<open>The fields as \<^verbatim>\<open>__init__\<close> sets them before it restores the tokens.\<close>

definition fresh_client ::
  "(string \<Rightarrow> cb_outcome) option \<Rightarrow> (string \<Rightarrow> payload \<Rightarrow> cb_outcome) option \<Rightarrow> int \<Rightarrow>
     bool \<Rightarrow> (string \<times> string \<times> time) option \<Rightarrow> time \<Rightarrow> client" where
  "fresh_client reauth tan threshold path file now =
     \<lparr>s_access_token = None, s_refresh_token = None, s_token_expiry = None,
      s_refresh_task = None, s_bravado_client = Some SwaggerClient,
      reauth_callback = reauth, tan_status_callback = tan,
      token_refresh_threshold = threshold, tasks = [], clock = now, trace = [],
      observer_errors = [], storage_path = path, token_file = file\<rparr>"

definition init ::
  "(string \<Rightarrow> cb_outcome) option \<Rightarrow> (string \<Rightarrow> payload \<Rightarrow> cb_outcome) option \<Rightarrow> int \<Rightarrow>
     bool \<Rightarrow> (string \<times> string \<times> time) option \<Rightarrow> time \<Rightarrow> bool \<Rightarrow> client" where
  "init reauth tan threshold path file now readable =
     restore_tokens_from_storage readable (fresh_client reauth tan threshold path file now)"

definition register_reauth_callback :: "(string \<Rightarrow> cb_outcome) \<Rightarrow> client \<Rightarrow> client" where
  "register_reauth_callback callback s = s\<lparr>reauth_callback := Some callback\<rparr>"

definition register_tan_status_callback ::
  "(string \<Rightarrow> payload \<Rightarrow> cb_outcome) \<Rightarrow> client \<Rightarrow> client" where
  "register_tan_status_callback callback s = s\<lparr>tan_status_callback := Some callback\<rparr>"

subsection \<open>Runs of a client\<close>

text \<open>
  What can happen to a client after its construction: a call of one of its methods by the
  application, or a round of the refresh loop made by one of the tasks.
\<close>

datatype action =
    Authenticate auth_env
  | Refresh_token refresh_env
  | Loop_round nat loop_env
  | Api "error + swagger_client"
  | Register_reauth "string \<Rightarrow> cb_outcome"
  | Register_tan_status "string \<Rightarrow> payload \<Rightarrow> cb_outcome"
  | Close

fun perform :: "action \<Rightarrow> client \<Rightarrow> client" where
  "perform (Authenticate env) s = snd (authenticate env s)"
| "perform (Refresh_token env) s = snd (refresh_token env s)"
| "perform (Loop_round i env) s = token_refresh_loop i env s"
| "perform (Api load) s = snd (api load s)"
| "perform (Register_reauth callback) s = register_reauth_callback callback s"
| "perform (Register_tan_status callback) s = register_tan_status_callback callback s"
| "perform Close s = close s"

fun run :: "action list \<Rightarrow> client \<Rightarrow> client" where
  "run [] s = s"
| "run (a # as) s = run as (perform a s)"

subsection \<open>Reading traces\<close>

text \<open>What a call added to the trace.\<close>

definition emitted :: "client \<Rightarrow> client \<Rightarrow> event list" where
  "emitted s s' = drop (length (trace s)) (trace s')"

fun is_io :: "event \<Rightarrow> bool" where
  "is_io (Sleep d) = True"
| "is_io (Poll_request u t) = True"
| "is_io e = False"

fun is_poll :: "event \<Rightarrow> bool" where
  "is_poll (Poll_request u t) = True"
| "is_poll e = False"

fun has_status :: "string \<Rightarrow> event \<Rightarrow> bool" where
  "has_status status (Tan_status st d) = (st = status)"
| "has_status status e = False"

text \<open>The answers to a poll after which the loop goes on: a transport timeout, a status
  other than 200, or 200 with the status \<^verbatim>\<open>PENDING\<close>.\<close>

fun retried :: "string option http_result \<Rightarrow> bool" where
  "retried Timeout = True"
| "retried Transport_failure = False"
| "retried (Response code body) = (if code = 200 then body = Some (Some ''PENDING'') else True)"

subsection \<open>The body of the polling loop\<close>

text \<open>One round of the loop of step 4, taken out of \<open>poll_loop\<close>: it either hands the
  next round its state or ends the step. \<open>poll_loop_unfold\<close> below relates the two.\<close>

datatype round_result = Again client | Stop "(error + unit) \<times> client"

definition poll_round ::
  "(nat \<Rightarrow> poll) \<Rightarrow> string \<Rightarrow> string \<Rightarrow> time \<Rightarrow> nat \<Rightarrow> client \<Rightarrow> round_result" where
  "poll_round polls poll_url tan_type start_time n s =
     (let s1 = sleep (1 * 1000) (p_late (polls n)) s;
          elapsed = (clock s1 - start_time) div 1000;
          remaining = 60 - elapsed;
          s2 = elapse (p_latency (polls n))
                 (s1\<lparr>trace := trace s1 @ [Poll_request poll_url (clock s1)]\<rparr>)
      in case p_get (polls n) of
           Timeout \<Rightarrow> Again s2
         | Transport_failure \<Rightarrow> Stop (Inl TransportError, s2)
         | Response code body \<Rightarrow>
             if code = 200 then
               (case body of
                  None \<Rightarrow> Stop (Inl ValueError, s2)
                | Some status \<Rightarrow>
                    if status = Some ''AUTHENTICATED'' then
                      Stop (Inr (),
                        invoke_tan_status_callback ''approved''
                          [(''tan_type'', Py_str tan_type), (''elapsed_seconds'', Py_int elapsed)] s2)
                    else if status = Some ''PENDING'' then
                      Again
                        (if elapsed mod 10 = 0 \<and> elapsed > 0
                         then invoke_tan_status_callback ''pending''
                                [(''tan_type'', Py_str tan_type), (''timeout_seconds'', Py_int 60),
                                 (''elapsed_seconds'', Py_int elapsed),
                                 (''remaining_seconds'', Py_int remaining)] s2
                         else s2)
                    else Stop (Inl AuthenticationError, s2))
             else Again s2)"

fun map_round :: "(client \<Rightarrow> client) \<Rightarrow> round_result \<Rightarrow> round_result" where
  "map_round f (Again s) = Again (f s)"
| "map_round f (Stop (r, s)) = Stop (r, f s)"

subsection \<open>A client without its observers\<close>

text \<open>\<open>core s\<close> is \<open>s\<close> with no observer registered and an empty error log: what is
  left is the tokens, the tasks, the clock, the trace and the token file.\<close>

definition core :: "client \<Rightarrow> client" where
  "core s = s\<lparr>reauth_callback := None, tan_status_callback := None, observer_errors := []\<rparr>"

subsection \<open>Refresh tasks that are alive\<close>

text \<open>A task is alive when it is neither finished nor asked to stop; \<open>referenced\<close> says
  that \<^verbatim>\<open>_refresh_task\<close> holds every task that is alive.\<close>

definition held ::
  "client \<Rightarrow> string option \<times> string option \<times> time option \<times> nat option \<times> task_status list" where
  "held s = (s_access_token s, s_refresh_token s, s_token_expiry s, s_refresh_task s, tasks s)"

definition running :: "client \<Rightarrow> task_status list" where
  "running s = filter (\<lambda>t. t = Running) (tasks s)"

definition token_pair_empty :: "client \<Rightarrow> bool" where
  "token_pair_empty s =
     (s_access_token s = None \<and> s_refresh_token s = None \<and> s_token_expiry s = None)"

definition referenced :: "client \<Rightarrow> bool" where
  "referenced s = (\<forall>i < length (tasks s). tasks s ! i = Running \<longrightarrow> s_refresh_task s = Some i)"

definition task_inv :: "client \<Rightarrow> bool" where
  "task_inv s = (referenced s \<and> (token_pair_empty s \<longrightarrow> Running \<notin> set (tasks s)))"

subsection \<open>Example inputs\<close>

definition approved_body :: token_body where
  "approved_body =
     \<lparr>b_access_token = Some ''a1'', b_refresh_token = Some ''r1'', b_expires_in = Some 600\<rparr>"

definition challenge_headers :: "string \<Rightarrow> header_value option" where
  "challenge_headers k =
     (if k = ''x-once-authentication-info''
      then Some (Auth_info (Some ''c1'') (Some ''P_TAN_PUSH'') (Some ''/poll''))
      else None)"

definition prompt :: "string \<Rightarrow> poll" where
  "prompt status = \<lparr>p_late = 2, p_latency = 150, p_get = Response 200 (Some (Some status))\<rparr>"

definition approval_polls :: "nat \<Rightarrow> poll" where
  "approval_polls n = (if n < 2 then prompt ''PENDING'' else prompt ''AUTHENTICATED'')"

definition env_ok :: auth_env where
  "env_ok =
     \<lparr>e_latency1 = 120, e_post1 = Response 200 (Some approved_body),
      e_latency2 = 80, e_sessions = Result [''u1''],
      e_latency3 = 90,
      e_challenge = Result \<lparr>resp_headers = challenge_headers, resp_body = ''{}''\<rparr>,
      e_polls = approval_polls,
      e_latency4b = 70, e_activation = Result (),
      e_latency5 = 110, e_post5 = Response 200 (Some approved_body),
      e_writable = True\<rparr>"

text \<open>A client that holds a complete Token Pair and a running refresh task.\<close>

definition client0 :: client where
  "client0 =
     start_refresh_task
       ((fresh_client None None 120 True None 0)
          \<lparr>s_access_token := Some ''a0'', s_refresh_token := Some ''r0'',
           s_token_expiry := Some 600000\<rparr>)"



definition refresh_env_of :: "token_body http_result \<Rightarrow> refresh_env" where
  "refresh_env_of post = \<lparr>r_latency = 130, r_post = post, r_writable = True\<rparr>"

text \<open>A challenge answer whose body carries the challenge and whose headers do not.\<close>

definition env_no_header :: auth_env where
  "env_no_header =
     env_ok\<lparr>e_challenge :=
       Result \<lparr>resp_headers = (\<lambda>k. None), resp_body = ''id c1 typ P_TAN_PUSH href /poll''\<rparr>\<rparr>"




text \<open>Observers that always raise, and observers that always return.\<close>

definition raising :: "client \<Rightarrow> client" where
  "raising s = s\<lparr>reauth_callback := Some (\<lambda>reason. Raises),
                 tan_status_callback := Some (\<lambda>status data. Raises)\<rparr>"

definition returning :: "client \<Rightarrow> client" where
  "returning s = s\<lparr>reauth_callback := Some (\<lambda>reason. Returns),
                   tan_status_callback := Some (\<lambda>status data. Returns)\<rparr>"

text \<open>A client restored from its token file, authenticated anew, and then refused a
  refresh.\<close>

definition example_run :: client where
  "example_run =
     run [Authenticate env_ok, Refresh_token (refresh_env_of (Response 401 None))]
       (init None None 120 True (Some (''a0'', ''r0'', 600000)) 0 True)"

section \<open>Properties\<close>

subsection \<open>What each operation leaves unchanged\<close>

lemma cancel_refresh_task_fields [simp]:
  "s_access_token (cancel_refresh_task s) = s_access_token s"
  "s_refresh_token (cancel_refresh_task s) = s_refresh_token s"
  "s_token_expiry (cancel_refresh_task s) = s_token_expiry s"
  "s_refresh_task (cancel_refresh_task s) = s_refresh_task s"
  "s_bravado_client (cancel_refresh_task s) = s_bravado_client s"
  "reauth_callback (cancel_refresh_task s) = reauth_callback s"
  "tan_status_callback (cancel_refresh_task s) = tan_status_callback s"
  "token_refresh_threshold (cancel_refresh_task s) = token_refresh_threshold s"
  "clock (cancel_refresh_task s) = clock s"
  "trace (cancel_refresh_task s) = trace s"
  "observer_errors (cancel_refresh_task s) = observer_errors s"
  "storage_path (cancel_refresh_task s) = storage_path s"
  "token_file (cancel_refresh_task s) = token_file s"
  "length (tasks (cancel_refresh_task s)) = length (tasks s)"
  by (simp_all add: cancel_refresh_task_def task_cancel_def split: option.splits)

lemma clear_tokens_fields [simp]:
  "s_access_token (clear_tokens s) = None"
  "s_refresh_token (clear_tokens s) = None"
  "s_token_expiry (clear_tokens s) = None"
  "s_refresh_task (clear_tokens s) = s_refresh_task s"
  "clock (clear_tokens s) = clock s"
  "trace (clear_tokens s) = trace s"
  "token_file (clear_tokens s) = token_file s"
  "length (tasks (clear_tokens s)) = length (tasks s)"
  by (simp_all add: clear_tokens_def)

lemma tasks_clear_tokens [simp]: "tasks (clear_tokens s) = tasks (cancel_refresh_task s)"
  by (simp add: clear_tokens_def cancel_refresh_task_def task_cancel_def task_done_def
        split: option.splits)

lemma start_refresh_task_fields [simp]:
  "s_access_token (start_refresh_task s) = s_access_token s"
  "s_refresh_token (start_refresh_task s) = s_refresh_token s"
  "s_token_expiry (start_refresh_task s) = s_token_expiry s"
  "s_refresh_task (start_refresh_task s) = Some (length (tasks s))"
  "clock (start_refresh_task s) = clock s"
  "trace (start_refresh_task s) = trace s"
  "token_file (start_refresh_task s) = token_file s"
  "tasks (start_refresh_task s) = tasks (cancel_refresh_task s) @ [Running]"
  by (simp_all add: start_refresh_task_def create_task_def Let_def)

lemma invoke_reauth_callback_fields [simp]:
  "s_access_token (invoke_reauth_callback reason s) = None"
  "s_refresh_token (invoke_reauth_callback reason s) = None"
  "s_token_expiry (invoke_reauth_callback reason s) = None"
  "s_refresh_task (invoke_reauth_callback reason s) = s_refresh_task s"
  "clock (invoke_reauth_callback reason s) = clock s"
  "trace (invoke_reauth_callback reason s) = trace s @ [Reauth_required reason]"
  "token_file (invoke_reauth_callback reason s) = token_file s"
  "tasks (invoke_reauth_callback reason s) = tasks (cancel_refresh_task s)"
  by (simp_all add: invoke_reauth_callback_def Let_def split: option.splits cb_outcome.splits)

lemma invoke_tan_status_callback_fields [simp]:
  "s_access_token (invoke_tan_status_callback status data s) = s_access_token s"
  "s_refresh_token (invoke_tan_status_callback status data s) = s_refresh_token s"
  "s_token_expiry (invoke_tan_status_callback status data s) = s_token_expiry s"
  "s_refresh_task (invoke_tan_status_callback status data s) = s_refresh_task s"
  "trace (invoke_tan_status_callback status data s) = trace s @ [Tan_status status data]"
  "token_file (invoke_tan_status_callback status data s) = token_file s"
  "tasks (invoke_tan_status_callback status data s) = tasks s"
  by (simp_all add: invoke_tan_status_callback_def Let_def split: option.splits cb_outcome.splits)

lemma save_tokens_to_storage_fields [simp]:
  "s_access_token (save_tokens_to_storage w s) = s_access_token s"
  "s_refresh_token (save_tokens_to_storage w s) = s_refresh_token s"
  "s_token_expiry (save_tokens_to_storage w s) = s_token_expiry s"
  "s_refresh_task (save_tokens_to_storage w s) = s_refresh_task s"
  "clock (save_tokens_to_storage w s) = clock s"
  "trace (save_tokens_to_storage w s) = trace s"
  "tasks (save_tokens_to_storage w s) = tasks s"
  by (simp_all add: save_tokens_to_storage_def save_tokens_def split: option.splits)

lemma elapse_fields [simp]:
  "s_access_token (elapse d s) = s_access_token s"
  "s_refresh_token (elapse d s) = s_refresh_token s"
  "s_token_expiry (elapse d s) = s_token_expiry s"
  "s_refresh_task (elapse d s) = s_refresh_task s"
  "trace (elapse d s) = trace s"
  "token_file (elapse d s) = token_file s"
  "tasks (elapse d s) = tasks s"
  by (simp_all add: elapse_def)

lemma clock_elapse [simp]: "clock (elapse d s) = clock s + int d"
  by (simp add: elapse_def)

lemma sleep_fields [simp]:
  "clock (sleep d late s) = clock s + int d + int late"
  "trace (sleep d late s) = trace s @ [Sleep d]"
  "s_access_token (sleep d late s) = s_access_token s"
  "s_refresh_token (sleep d late s) = s_refresh_token s"
  "s_token_expiry (sleep d late s) = s_token_expiry s"
  "s_refresh_task (sleep d late s) = s_refresh_task s"
  "tasks (sleep d late s) = tasks s"
  "token_file (sleep d late s) = token_file s"
  by (simp_all add: sleep_def elapse_def)

lemma clock_invoke_tan_status_callback [simp]:
  "clock (invoke_tan_status_callback status data s) = clock s"
  by (simp add: invoke_tan_status_callback_def Let_def split: option.splits cb_outcome.splits)


subsection \<open>One round of the polling loop\<close>


lemma poll_loop_retry:
  assumes "clock s - start_time < 60 * 1000" and "retried (p_get (polls n))"
  shows "\<exists>s2 ys.
           poll_loop polls poll_url tan_type start_time n s =
             poll_loop polls poll_url tan_type start_time (Suc n) s2 \<and>
           clock s2 = clock s + 1000 + int (p_late (polls n)) + int (p_latency (polls n)) \<and>
           trace s2 =
             trace s @ [Sleep 1000, Poll_request poll_url (clock s + 1000 + int (p_late (polls n)))]
               @ ys \<and>
           list_all (has_status ''pending'') ys"
proof -
  define s1 where "s1 = sleep (1 * 1000) (p_late (polls n)) s"
  define elapsed where "elapsed = (clock s1 - start_time) div 1000"
  define s2 where "s2 = elapse (p_latency (polls n))
                          (s1\<lparr>trace := trace s1 @ [Poll_request poll_url (clock s1)]\<rparr>)"
  define notify where "notify = (elapsed mod 10 = 0 \<and> elapsed > 0)"
  define s3 where "s3 = (if notify
       then invoke_tan_status_callback ''pending''
              [(''tan_type'', Py_str tan_type), (''timeout_seconds'', Py_int 60),
               (''elapsed_seconds'', Py_int elapsed),
               (''remaining_seconds'', Py_int (60 - elapsed))] s2
       else s2)"
  have c2: "clock s2 = clock s + 1000 + int (p_late (polls n)) + int (p_latency (polls n))"
    by (simp add: s2_def s1_def)
  have t2: "trace s2 =
      trace s @ [Sleep 1000, Poll_request poll_url (clock s + 1000 + int (p_late (polls n)))] @ []"
    by (simp add: s2_def s1_def)
  have c3: "clock s3 = clock s + 1000 + int (p_late (polls n)) + int (p_latency (polls n))"
    by (simp add: s3_def c2)
  have t3: "\<exists>ys. trace s3 =
      trace s @ [Sleep 1000, Poll_request poll_url (clock s + 1000 + int (p_late (polls n)))] @ ys
      \<and> list_all (has_status ''pending'') ys"
    using t2 by (cases notify) (simp_all add: s3_def)
  have unfold: "poll_loop polls poll_url tan_type start_time n s =
      (case p_get (polls n) of
         Timeout \<Rightarrow> poll_loop polls poll_url tan_type start_time (Suc n) s2
       | Transport_failure \<Rightarrow> (Inl TransportError, s2)
       | Response code body \<Rightarrow>
           if code = 200 then
             (case body of
                None \<Rightarrow> (Inl ValueError, s2)
              | Some status \<Rightarrow>
                  if status = Some ''AUTHENTICATED'' then
                    (Inr (),
                     invoke_tan_status_callback ''approved''
                       [(''tan_type'', Py_str tan_type), (''elapsed_seconds'', Py_int elapsed)] s2)
                  else if status = Some ''PENDING'' then
                    poll_loop polls poll_url tan_type start_time (Suc n) s3
                  else (Inl AuthenticationError, s2))
           else poll_loop polls poll_url tan_type start_time (Suc n) s2)"
    unfolding s3_def notify_def s2_def elapsed_def s1_def
    by (subst poll_loop.simps) (simp only: assms(1) if_True Let_def)
  show ?thesis
  proof (cases "p_get (polls n)")
    case Timeout
    then show ?thesis using unfold c2 t2 by (intro exI [of _ s2] exI [of _ "[]"]) simp
  next
    case Transport_failure
    then show ?thesis using assms(2) by simp
  next
    case (Response code body)
    show ?thesis
    proof (cases "code = 200")
      case True
      with Response assms(2) have "body = Some (Some ''PENDING'')" by simp
      with Response True unfold have
        "poll_loop polls poll_url tan_type start_time n s =
           poll_loop polls poll_url tan_type start_time (Suc n) s3" by simp
      with c3 t3 show ?thesis by blast
    next
      case False
      with Response unfold have
        "poll_loop polls poll_url tan_type start_time n s =
           poll_loop polls poll_url tan_type start_time (Suc n) s2" by simp
      with c2 t2 show ?thesis by (intro exI [of _ s2] exI [of _ "[]"]) simp
    qed
  qed
qed


lemma poll_loop_authenticated:
  assumes "clock s - start_time < 60 * 1000"
    and "p_get (polls n) = Response 200 (Some (Some ''AUTHENTICATED''))"
  shows "\<exists>s' data.
           poll_loop polls poll_url tan_type start_time n s = (Inr (), s') \<and>
           trace s' =
             trace s @ [Sleep 1000, Poll_request poll_url (clock s + 1000 + int (p_late (polls n))),
                        Tan_status ''approved'' data]"
  using assms by (subst poll_loop.simps) (simp add: Let_def)

lemma filter_other_status:
  assumes "list_all (has_status status) ys" and "status' \<noteq> status"
  shows "filter (has_status status') ys = []"
  using assms
proof (induction ys)
  case Nil
  then show ?case by simp
next
  case (Cons e ys)
  then show ?case by (cases e) auto
qed

lemma filter_io_status:
  assumes "list_all (has_status status) ys"
  shows "filter is_io ys = []" and "filter is_poll ys = []"
  using assms
proof (induction ys)
  case Nil
  { case 1 show ?case by simp }
  { case 2 show ?case by simp }
next
  case (Cons e ys)
  { case 1 with Cons show ?case by (cases e) auto }
  { case 2 with Cons show ?case by (cases e) auto }
qed



subsection \<open>The polling loop, round by round\<close>

lemma poll_loop_unfold:
  "poll_loop polls poll_url tan_type start_time n s =
     (if clock s - start_time < 60 * 1000 then
        (case poll_round polls poll_url tan_type start_time n s of
           Again s' \<Rightarrow> poll_loop polls poll_url tan_type start_time (Suc n) s'
         | Stop r \<Rightarrow> r)
      else
        (Inl TANTimeoutError,
         invoke_tan_status_callback ''timeout''
           [(''tan_type'', Py_str tan_type), (''timeout_seconds'', Py_int 60)] s))"
  by (subst poll_loop.simps)
     (simp add: poll_round_def Let_def split: http_result.splits option.splits)

lemma poll_round_clock:
  assumes "poll_round polls poll_url tan_type start_time n s = Again s'"
  shows "clock s + 1000 \<le> clock s'"
  using assms
  by (auto simp: poll_round_def Let_def split: http_result.splits option.splits if_splits)

subsection \<open>Observers do not reach the session state\<close>

lemma core_fields [simp]:
  "s_access_token (core s) = s_access_token s"
  "s_refresh_token (core s) = s_refresh_token s"
  "s_token_expiry (core s) = s_token_expiry s"
  "s_refresh_task (core s) = s_refresh_task s"
  "s_bravado_client (core s) = s_bravado_client s"
  "reauth_callback (core s) = None"
  "tan_status_callback (core s) = None"
  "token_refresh_threshold (core s) = token_refresh_threshold s"
  "tasks (core s) = tasks s"
  "clock (core s) = clock s"
  "trace (core s) = trace s"
  "observer_errors (core s) = []"
  "storage_path (core s) = storage_path s"
  "token_file (core s) = token_file s"
  by (simp_all add: core_def)

lemma core_core [simp]: "core (core s) = core s"
  by (simp add: core_def)

lemma core_updates [simp]:
  "(core s)\<lparr>trace := t\<rparr> = core (s\<lparr>trace := t\<rparr>)"
  "(core s)\<lparr>clock := c\<rparr> = core (s\<lparr>clock := c\<rparr>)"
  "(core s)\<lparr>tasks := ts\<rparr> = core (s\<lparr>tasks := ts\<rparr>)"
  "(core s)\<lparr>s_access_token := a\<rparr> = core (s\<lparr>s_access_token := a\<rparr>)"
  "(core s)\<lparr>s_refresh_token := r\<rparr> = core (s\<lparr>s_refresh_token := r\<rparr>)"
  "(core s)\<lparr>s_token_expiry := e\<rparr> = core (s\<lparr>s_token_expiry := e\<rparr>)"
  "(core s)\<lparr>s_refresh_task := i\<rparr> = core (s\<lparr>s_refresh_task := i\<rparr>)"
  "(core s)\<lparr>s_bravado_client := b\<rparr> = core (s\<lparr>s_bravado_client := b\<rparr>)"
  "(core s)\<lparr>token_file := f\<rparr> = core (s\<lparr>token_file := f\<rparr>)"
  by (simp_all add: core_def)

lemma core_observer_updates [simp]:
  "core (s\<lparr>observer_errors := x\<rparr>) = core s"
  "core (s\<lparr>reauth_callback := y\<rparr>) = core s"
  "core (s\<lparr>tan_status_callback := z\<rparr>) = core s"
  by (simp_all add: core_def)

lemma elapse_core [simp]: "elapse d (core s) = core (elapse d s)"
  by (simp add: elapse_def)

lemma sleep_core [simp]: "sleep d late (core s) = core (sleep d late s)"
  by (simp add: sleep_def)

lemma invoke_tan_status_callback_core [simp]:
  "invoke_tan_status_callback status data (core s) = core (invoke_tan_status_callback status data s)"
  by (simp add: invoke_tan_status_callback_def Let_def split: option.splits cb_outcome.splits)

lemma task_cancel_core [simp]: "task_cancel i (core s) = core (task_cancel i s)"
  by (simp add: task_cancel_def)

lemma task_done_core [simp]: "task_done (core s) i = task_done s i"
  by (simp add: task_done_def)

lemma cancel_refresh_task_core [simp]: "cancel_refresh_task (core s) = core (cancel_refresh_task s)"
  by (simp add: cancel_refresh_task_def split: option.splits)

lemma clear_tokens_core [simp]: "clear_tokens (core s) = core (clear_tokens s)"
  by (simp add: clear_tokens_def)

lemma start_refresh_task_core [simp]: "start_refresh_task (core s) = core (start_refresh_task s)"
  by (simp add: start_refresh_task_def create_task_def Let_def)

lemma invoke_reauth_callback_core [simp]:
  "invoke_reauth_callback reason (core s) = core (invoke_reauth_callback reason s)"
  by (simp add: invoke_reauth_callback_def Let_def split: option.splits cb_outcome.splits)

lemma save_tokens_to_storage_core [simp]:
  "save_tokens_to_storage w (core s) = core (save_tokens_to_storage w s)"
  by (simp add: save_tokens_to_storage_def save_tokens_def split: option.splits)

lemma task_finish_core [simp]: "task_finish i (core s) = core (task_finish i s)"
  by (simp add: task_finish_def)

lemma poll_round_core:
  "poll_round polls poll_url tan_type start_time n (core s) =
     map_round core (poll_round polls poll_url tan_type start_time n s)"
  by (simp add: poll_round_def Let_def if_distrib [of core] if_distrib [of "map_round core"]
        split: http_result.splits option.splits split del: if_split cong: if_cong)

lemma poll_loop_core:
  "poll_loop polls poll_url tan_type start_time n (core s) =
     apsnd core (poll_loop polls poll_url tan_type start_time n s)"
proof (induction "nat (60 * 1000 - (clock s - start_time))" arbitrary: n s rule: less_induct)
  case less
  show ?case
  proof (cases "clock s - start_time < 60 * 1000")
    case False
    then show ?thesis
      by (simp add: poll_loop_unfold [of _ _ _ _ _ s] poll_loop_unfold [of _ _ _ _ _ "core s"])
  next
    case True
    show ?thesis
    proof (cases "poll_round polls poll_url tan_type start_time n s")
      case (Again s')
      from poll_round_clock [OF Again] True
      have "nat (60 * 1000 - (clock s' - start_time)) < nat (60 * 1000 - (clock s - start_time))"
        by simp
      from less [OF this, of "Suc n"] Again True show ?thesis
        by (simp add: poll_loop_unfold [of _ _ _ _ n s] poll_loop_unfold [of _ _ _ _ n "core s"]
              poll_round_core)
    next
      case (Stop r)
      with True show ?thesis
        by (cases r)
           (simp add: poll_loop_unfold [of _ _ _ _ n s] poll_loop_unfold [of _ _ _ _ n "core s"]
              poll_round_core)
    qed
  qed
qed

lemma case_apsnd:
  "(case apsnd f p of (a, b) \<Rightarrow> g a b) = (case p of (a, b) \<Rightarrow> g a (f b))"
  by (cases p) simp

lemma step1_core:
  "step1_password_credentials latency post (core s) =
     apsnd core (step1_password_credentials latency post s)"
  by (simp add: step1_password_credentials_def Let_def
      split: http_result.splits option.splits)

lemma step2_core:
  "step2_session_status latency call (core s) = apsnd core (step2_session_status latency call s)"
  by (simp add: step2_session_status_def Let_def split: bravado_result.splits list.splits)

lemma step3_core:
  "step3_tan_challenge latency call (core s) = apsnd core (step3_tan_challenge latency call s)"
  by (simp add: step3_tan_challenge_def Let_def
      split: bravado_result.splits option.splits header_value.splits)

lemma step4_core:
  "step4_poll_tan_approval polls poll_url tan_type (core s) =
     apsnd core (step4_poll_tan_approval polls poll_url tan_type s)"
  by (simp add: step4_poll_tan_approval_def Let_def poll_loop_core)

lemma step4b_core:
  "step4b_activate_session latency call (core s) =
     apsnd core (step4b_activate_session latency call s)"
  by (simp add: step4b_activate_session_def Let_def split: bravado_result.splits)

lemma utc_now_core [simp]: "utc_now (core s) = utc_now s"
  by (simp add: utc_now_def)

lemma step5_core:
  "step5_secondary_token latency post writable (core s) =
     apsnd core (step5_secondary_token latency post writable s)"
  by (simp add: step5_secondary_token_def Let_def utc_now_def
      split: http_result.splits option.splits)

lemma auth_failed_core: "auth_failed e (core s) = apsnd core (auth_failed e s)"
  by (simp add: auth_failed_def)

lemma authenticate_core: "authenticate env (core s) = apsnd core (authenticate env s)"
  by (simp add: authenticate_def step1_core step2_core step3_core step4_core step4b_core
        step5_core auth_failed_core case_apsnd
      split: prod.splits sum.splits)

lemma refresh_token_core: "refresh_token env (core s) = apsnd core (refresh_token env s)"
  by (simp add: refresh_token_def Let_def utc_now_def split: http_result.splits option.splits)

lemma token_refresh_loop_core:
  "token_refresh_loop i env (core s) = core (token_refresh_loop i env s)"
  by (simp add: token_refresh_loop_def Let_def refresh_token_core case_apsnd utc_now_def
      split: task_status.splits option.splits prod.splits sum.splits)

lemma api_core: "core (snd (api load (core s))) = core (snd (api load s))"
  by (simp add: api_def is_authenticated_def initialize_bravado_client_def split: sum.splits)

lemma perform_core: "core (perform a (core s)) = core (perform a s)"
  by (cases a)
     (simp_all add: authenticate_core refresh_token_core token_refresh_loop_core api_core
        register_reauth_callback_def register_tan_status_callback_def close_def)

lemma run_core:
  assumes "core s1 = core s2"
  shows "core (run acts s1) = core (run acts s2)"
  using assms
proof (induction acts arbitrary: s1 s2)
  case Nil
  then show ?case by simp
next
  case (Cons a acts)
  have "core (perform a s1) = core (perform a (core s1))"
    by (simp add: perform_core)
  also have "\<dots> = core (perform a (core s2))"
    by (simp add: Cons.prems)
  also have "\<dots> = core (perform a s2)"
    by (simp add: perform_core)
  finally have "core (perform a s1) = core (perform a s2)" .
  from Cons.IH [OF this] show ?case
    by simp
qed

subsection \<open>The invariant of the refresh tasks\<close>

lemma held_simps [simp]:
  "held (elapse d s) = held s"
  "held (sleep d late s) = held s"
  "held (invoke_tan_status_callback status data s) = held s"
  "held (s\<lparr>trace := t\<rparr>) = held s"
  "held (s\<lparr>s_bravado_client := b\<rparr>) = held s"
  "held (s\<lparr>reauth_callback := r\<rparr>) = held s"
  "held (s\<lparr>tan_status_callback := c\<rparr>) = held s"
  "held (save_tokens_to_storage w s) = held s"
  by (simp_all add: held_def)

lemma held_inv:
  assumes "held s' = held s"
  shows "task_inv s' = task_inv s" and "referenced s' = referenced s"
  using assms by (simp_all add: task_inv_def referenced_def token_pair_empty_def held_def)

lemma poll_round_held:
  "poll_round polls poll_url tan_type start_time n s = Again s' \<Longrightarrow> held s' = held s"
  "poll_round polls poll_url tan_type start_time n s = Stop (r, s') \<Longrightarrow> held s' = held s"
  by (auto simp: poll_round_def Let_def split: http_result.splits option.splits if_splits)

lemma poll_loop_held:
  "held (snd (poll_loop polls poll_url tan_type start_time n s)) = held s"
proof (induction "nat (60 * 1000 - (clock s - start_time))" arbitrary: n s rule: less_induct)
  case less
  show ?case
  proof (cases "clock s - start_time < 60 * 1000")
    case False
    then show ?thesis
      by (simp add: poll_loop_unfold [of _ _ _ _ _ s])
  next
    case True
    show ?thesis
    proof (cases "poll_round polls poll_url tan_type start_time n s")
      case (Again s')
      from poll_round_clock [OF Again] True
      have "nat (60 * 1000 - (clock s' - start_time)) < nat (60 * 1000 - (clock s - start_time))"
        by simp
      from less [OF this, of "Suc n"] Again True poll_round_held(1) [OF Again] show ?thesis
        by (simp add: poll_loop_unfold [of _ _ _ _ n s])
    next
      case (Stop r)
      with True poll_round_held(2) [of polls poll_url tan_type start_time n s "fst r" "snd r"]
      show ?thesis
        by (simp add: poll_loop_unfold [of _ _ _ _ n s])
    qed
  qed
qed

lemma steps_held:
  "held (snd (step1_password_credentials l1 p1 s)) = held s"
  "held (snd (step2_session_status l2 c2 s)) = held s"
  "held (snd (step3_tan_challenge l3 c3 s)) = held s"
  "held (snd (step4_poll_tan_approval polls poll_url tan_type s)) = held s"
  "held (snd (step4b_activate_session l4 c4 s)) = held s"
  by (simp_all add: step1_password_credentials_def step2_session_status_def
        step3_tan_challenge_def step4_poll_tan_approval_def step4b_activate_session_def
        poll_loop_held Let_def
      split: http_result.splits option.splits bravado_result.splits list.splits
        header_value.splits)

lemma step5_tasks:
  "tasks (snd (step5_secondary_token l p w s)) = tasks s"
  "s_refresh_task (snd (step5_secondary_token l p w s)) = s_refresh_task s"
  "fst (step5_secondary_token l p w s) = Inr u \<Longrightarrow>
     s_access_token (snd (step5_secondary_token l p w s)) \<noteq> None"
  by (auto simp: step5_secondary_token_def Let_def split: http_result.splits option.splits)

lemma cancel_no_running:
  assumes "referenced s"
  shows "Running \<notin> set (tasks (cancel_refresh_task s))"
proof
  assume "Running \<in> set (tasks (cancel_refresh_task s))"
  then obtain j where j: "j < length (tasks (cancel_refresh_task s))"
    and r: "tasks (cancel_refresh_task s) ! j = Running"
    by (auto simp: in_set_conv_nth)
  from j have jl: "j < length (tasks s)" by simp
  show False
  proof (cases "s_refresh_task s")
    case None
    with r have "tasks s ! j = Running" by (simp add: cancel_refresh_task_def)
    with assms jl None show False by (simp add: referenced_def)
  next
    case (Some i)
    show False
    proof (cases "j = i")
      case True
      with r Some jl show False
        by (auto simp: cancel_refresh_task_def task_cancel_def task_done_def split: if_splits)
    next
      case False
      with r Some jl have "tasks s ! j = Running"
        by (auto simp: cancel_refresh_task_def task_cancel_def task_done_def split: if_splits)
      with assms jl Some False show False by (simp add: referenced_def)
    qed
  qed
qed

lemma no_running_inv:
  assumes "Running \<notin> set (tasks s)"
  shows "task_inv s" and "running s = []"
proof -
  have "referenced s"
    unfolding referenced_def using assms by (metis nth_mem)
  with assms show "task_inv s"
    by (simp add: task_inv_def)
  from assms show "running s = []"
    by (auto simp: running_def filter_empty_conv)
qed

lemma clear_tokens_inv:
  assumes "referenced s"
  shows "task_inv (clear_tokens s)" and "running (clear_tokens s) = []"
proof -
  have "referenced (s\<lparr>s_access_token := None, s_refresh_token := None, s_token_expiry := None\<rparr>)"
    using assms by (simp add: referenced_def)
  from cancel_no_running [OF this] have "Running \<notin> set (tasks (clear_tokens s))"
    by (simp add: clear_tokens_def)
  from no_running_inv [OF this] show "task_inv (clear_tokens s)" "running (clear_tokens s) = []" .
qed

lemma invoke_reauth_callback_inv:
  assumes "referenced s"
  shows "task_inv (invoke_reauth_callback reason s)"
    and "running (invoke_reauth_callback reason s) = []"
proof -
  from cancel_no_running [OF assms]
  have "Running \<notin> set (tasks (invoke_reauth_callback reason s))"
    by simp
  from no_running_inv [OF this]
  show "task_inv (invoke_reauth_callback reason s)"
    "running (invoke_reauth_callback reason s) = []" .
qed

lemma start_refresh_task_running:
  assumes "referenced s"
  shows "running (start_refresh_task s) = [Running]"
    and "referenced (start_refresh_task s)"
proof -
  from cancel_no_running [OF assms] have n: "Running \<notin> set (tasks (cancel_refresh_task s))" .
  then show "running (start_refresh_task s) = [Running]"
    by (auto simp: running_def filter_empty_conv)
  show "referenced (start_refresh_task s)"
    unfolding referenced_def
  proof (intro allI impI)
    fix i
    assume i: "i < length (tasks (start_refresh_task s))"
      and r: "tasks (start_refresh_task s) ! i = Running"
    show "s_refresh_task (start_refresh_task s) = Some i"
    proof (cases "i < length (tasks s)")
      case True
      with r have "tasks (cancel_refresh_task s) ! i = Running"
        by (simp add: nth_append)
      with n True show ?thesis
        by (metis cancel_refresh_task_fields(14) nth_mem)
    next
      case False
      with i show ?thesis by simp
    qed
  qed
qed

lemma at_most_one_running:
  assumes "\<forall>j < length xs. xs ! j = Running \<longrightarrow> j = i"
  shows "length (filter (\<lambda>t. t = Running) xs) \<le> 1"
  using assms
proof (induction xs arbitrary: i)
  case Nil
  then show ?case by simp
next
  case (Cons x xs)
  show ?case
  proof (cases i)
    case 0
    have "filter (\<lambda>t. t = Running) xs = []"
    proof (rule ccontr)
      assume "filter (\<lambda>t. t = Running) xs \<noteq> []"
      then obtain j where "j < length xs" "xs ! j = Running"
        by (auto simp: filter_empty_conv in_set_conv_nth)
      with Cons.prems [rule_format, of "Suc j"] 0 show False by simp
    qed
    then show ?thesis by simp
  next
    case (Suc k)
    with Cons.prems [rule_format, of 0] have x: "x \<noteq> Running" by auto
    have "\<forall>j < length xs. xs ! j = Running \<longrightarrow> j = k"
      using Cons.prems [rule_format, of "Suc j" for j] Suc by auto
    from Cons.IH [OF this] x show ?thesis by simp
  qed
qed

lemma referenced_running:
  assumes "referenced s"
  shows "length (running s) \<le> 1"
proof (cases "s_refresh_task s")
  case None
  with assms have "Running \<notin> set (tasks s)"
    by (auto simp: referenced_def in_set_conv_nth)
  from no_running_inv(2) [OF this] show ?thesis by simp
next
  case (Some i)
  with assms have "\<forall>j < length (tasks s). tasks s ! j = Running \<longrightarrow> j = i"
    by (simp add: referenced_def)
  from at_most_one_running [OF this] show ?thesis by (simp add: running_def)
qed


lemma task_finish_inv:
  assumes "Running \<notin> set (tasks s)"
  shows "Running \<notin> set (tasks (task_finish i s))"
  using assms by (auto simp: task_finish_def dest: set_update_subset_insert [THEN subsetD])

lemma authenticate_inv:
  assumes "task_inv s"
  shows "task_inv (snd (authenticate env s))"
proof -
  let ?s1 = "snd (step1_password_credentials (e_latency1 env) (e_post1 env) s)"
  have r: "referenced s" using assms by (simp add: task_inv_def)
  have keep: "held t = held s \<Longrightarrow> task_inv (snd (auth_failed e t))" for e t
    using clear_tokens_inv(1) [of t] r held_inv(2) [of t s] by (simp add: auth_failed_def)
  have five: "held t = held s \<Longrightarrow>
      task_inv (snd (case step5_secondary_token l p w t of
                       (Inl e, s5) \<Rightarrow> auth_failed e s5
                     | (Inr u, s5) \<Rightarrow> (Inr (), start_refresh_task s5)))" for t l p w
  proof -
    assume h: "held t = held s"
    obtain res s5 where s5: "step5_secondary_token l p w t = (res, s5)"
      by (cases "step5_secondary_token l p w t")
    from step5_tasks(1,2) [of l p w t] s5 h r have r5: "referenced s5"
      by (simp add: referenced_def held_def)
    show ?thesis
    proof (cases res)
      case (Inl e)
      with s5 clear_tokens_inv(1) [OF r5] show ?thesis by (simp add: auth_failed_def)
    next
      case (Inr u)
      with step5_tasks(3) [of l p w t u] s5 have "\<not> token_pair_empty s5"
        by (simp add: token_pair_empty_def)
      with start_refresh_task_running(2) [OF r5] Inr s5 show ?thesis
        by (simp add: task_inv_def token_pair_empty_def)
    qed
  qed
  obtain r1 s1 where 1:
    "step1_password_credentials (e_latency1 env) (e_post1 env) s = (r1, s1)"
    by (cases "step1_password_credentials (e_latency1 env) (e_post1 env) s")
  with steps_held(1) [of "e_latency1 env" "e_post1 env" s] have h1: "held s1 = held s"
    by simp
  obtain r2 s2 where 2: "step2_session_status (e_latency2 env) (e_sessions env) s1 = (r2, s2)"
    by (cases "step2_session_status (e_latency2 env) (e_sessions env) s1")
  with steps_held(2) [of "e_latency2 env" "e_sessions env" s1] h1 have h2: "held s2 = held s"
    by simp
  obtain r3 s3 where 3: "step3_tan_challenge (e_latency3 env) (e_challenge env) s2 = (r3, s3)"
    by (cases "step3_tan_challenge (e_latency3 env) (e_challenge env) s2")
  with steps_held(3) [of "e_latency3 env" "e_challenge env" s2] h2 have h3: "held s3 = held s"
    by simp
  show ?thesis
  proof (cases r1)
    case Inl
    with 1 keep [OF h1] show ?thesis by (simp add: authenticate_def)
  next
    case a: (Inr initial_token)
    show ?thesis
    proof (cases r2)
      case Inl
      with a 1 2 keep [OF h2] show ?thesis by (simp add: authenticate_def)
    next
      case b: (Inr session_uuid)
      show ?thesis
      proof (cases r3)
        case Inl
        with a b 1 2 3 keep [OF h3] show ?thesis by (simp add: authenticate_def)
      next
        case (Inr challenge)
        obtain challenge_id tan_type poll_url where
          c: "r3 = Inr (challenge_id, tan_type, poll_url)"
          using Inr by (cases challenge) simp
        obtain r4 s4 where 4:
          "step4_poll_tan_approval (e_polls env) poll_url tan_type s3 = (r4, s4)"
          by (cases "step4_poll_tan_approval (e_polls env) poll_url tan_type s3")
        with steps_held(4) [of "e_polls env" poll_url tan_type s3] h3
        have h4: "held s4 = held s"
          by simp
        obtain r4b s4b where 5:
          "step4b_activate_session (e_latency4b env) (e_activation env) s4 = (r4b, s4b)"
          by (cases "step4b_activate_session (e_latency4b env) (e_activation env) s4")
        with steps_held(5) [of "e_latency4b env" "e_activation env" s4] h4
        have h4b: "held s4b = held s"
          by simp
        show ?thesis
        proof (cases r4)
          case Inl
          with a b c 1 2 3 4 keep [OF h4] show ?thesis by (simp add: authenticate_def)
        next
          case d: (Inr u)
          show ?thesis
          proof (cases r4b)
            case Inl
            with a b c d 1 2 3 4 5 keep [OF h4b] show ?thesis by (simp add: authenticate_def)
          next
            case (Inr v)
            with a b c d 1 2 3 4 5
              five [OF h4b, of "e_latency5 env" "e_post5 env" "e_writable env"]
            show ?thesis by (simp add: authenticate_def)
          qed
        qed
      qed
    qed
  qed
qed

lemma inv_nonempty:
  assumes "referenced t" and "s_access_token t \<noteq> None"
  shows "task_inv t"
  using assms by (auto simp: task_inv_def token_pair_empty_def)

lemma authenticate_failure:
  assumes "authenticate env s = (Inl e, s')"
  shows "s_access_token s' = None \<and> s_refresh_token s' = None \<and> s_token_expiry s' = None"
  using assms
  by (auto simp: authenticate_def auth_failed_def split: prod.splits sum.splits)

lemma refresh_token_shape:
  assumes "refresh_token env s = (r, s')"
  shows "held s' = held s \<or>
         s' = invoke_reauth_callback ''token_refresh_failed'' (elapse (r_latency env) s) \<or>
         (tasks s' = tasks s \<and> s_refresh_task s' = s_refresh_task s \<and> s_access_token s' \<noteq> None)"
  using assms
  by (auto simp: refresh_token_def Let_def held_def
      split: if_splits http_result.splits option.splits)

lemma refresh_token_inv:
  assumes "task_inv s"
  shows "task_inv (snd (refresh_token env s))"
proof -
  obtain r s' where e: "refresh_token env s = (r, s')"
    by (cases "refresh_token env s")
  have ref: "referenced s" using assms by (simp add: task_inv_def)
  from refresh_token_shape [OF e] consider
    (same) "held s' = held s"
    | (reauth) "s' = invoke_reauth_callback ''token_refresh_failed'' (elapse (r_latency env) s)"
    | (stored) "tasks s' = tasks s" "s_refresh_task s' = s_refresh_task s"
        "s_access_token s' \<noteq> None"
    by blast
  then have "task_inv s'"
  proof cases
    case same
    with assms held_inv(1) show ?thesis by blast
  next
    case reauth
    have "referenced (elapse (r_latency env) s)"
      using ref by (simp add: referenced_def)
    from invoke_reauth_callback_inv(1) [OF this] reauth show ?thesis by simp
  next
    case stored
    with ref have "referenced s'" by (simp add: referenced_def)
    from inv_nonempty [OF this stored(3)] show ?thesis .
  qed
  with e show ?thesis by simp
qed

lemma task_finish_task_inv:
  assumes "task_inv s"
  shows "task_inv (task_finish i s)"
proof -
  have "referenced (task_finish i s)"
    unfolding referenced_def
  proof (intro allI impI)
    fix j
    assume j: "j < length (tasks (task_finish i s))"
      and r: "tasks (task_finish i s) ! j = Running"
    from j have jl: "j < length (tasks s)" by (simp add: task_finish_def)
    have "j \<noteq> i"
      using r jl by (auto simp: task_finish_def)
    with r have "tasks s ! j = Running" by (simp add: task_finish_def)
    with assms jl show "s_refresh_task (task_finish i s) = Some j"
      by (simp add: task_inv_def referenced_def task_finish_def)
  qed
  moreover have "Running \<notin> set (tasks s) \<Longrightarrow> Running \<notin> set (tasks (task_finish i s))"
    by (rule task_finish_inv)
  moreover have "token_pair_empty (task_finish i s) = token_pair_empty s"
    by (simp add: token_pair_empty_def task_finish_def)
  ultimately show ?thesis
    using assms by (auto simp: task_inv_def)
qed

lemma token_refresh_loop_inv:
  assumes "task_inv s"
  shows "task_inv (token_refresh_loop i env s)"
proof (cases "i < length (tasks s)")
  case False
  with assms show ?thesis by (simp add: token_refresh_loop_def)
next
  case True
  show ?thesis
  proof (cases "tasks s ! i")
    case Done
    with True assms show ?thesis by (simp add: token_refresh_loop_def)
  next
    case Cancel_requested
    with True task_finish_task_inv [OF assms] show ?thesis
      by (simp add: token_refresh_loop_def)
  next
    case Running
    show ?thesis
    proof (cases "s_token_expiry s")
      case None
      have "held (sleep (10 * 1000) (l_late env) s) = held s" by simp
      from held_inv(1) [OF this] assms None Running True show ?thesis
        by (simp add: token_refresh_loop_def)
    next
      case (Some expiry)
      define s1 where "s1 =
        (if expiry - token_refresh_threshold s * 1000 - utc_now s > 0
         then sleep (nat (expiry - token_refresh_threshold s * 1000 - utc_now s)) (l_late env) s
         else s)"
      have "held s1 = held s" by (simp add: s1_def)
      from held_inv(1) [OF this] assms have i1: "task_inv s1" by simp
      obtain r s2 where e: "refresh_token (l_refresh env) s1 = (r, s2)"
        by (cases "refresh_token (l_refresh env) s1")
      from refresh_token_inv [OF i1, of "l_refresh env"] e have i2: "task_inv s2" by simp
      have u: "token_refresh_loop i env s =
          (case r of
             Inl e \<Rightarrow> sleep (10 * 1000) (l_late env) s2
           | Inr success \<Rightarrow>
               if \<not> success
               then task_finish i (invoke_reauth_callback ''automatic_refresh_failed'' s2)
               else s2)"
        using True Running Some e
        by (simp add: token_refresh_loop_def Let_def s1_def)
      show ?thesis
      proof (cases r)
        case (Inl x)
        have "held (sleep (10 * 1000) (l_late env) s2) = held s2" by simp
        from held_inv(1) [OF this] i2 Inl u show ?thesis by simp
      next
        case (Inr success)
        show ?thesis
        proof (cases success)
          case True
          with Inr u i2 show ?thesis by simp
        next
          case False
          from i2 have "referenced s2" by (simp add: task_inv_def)
          from invoke_reauth_callback_inv(1) [OF this]
          have "task_inv (invoke_reauth_callback ''automatic_refresh_failed'' s2)" .
          from task_finish_task_inv [OF this] False Inr u show ?thesis by simp
        qed
      qed
    qed
  qed
qed

lemma api_held: "held (snd (api load s)) = held s"
  by (auto simp: api_def initialize_bravado_client_def split: sum.splits)

lemma perform_inv:
  assumes "task_inv s"
  shows "task_inv (perform a s)"
proof (cases a)
  case (Authenticate env)
  with authenticate_inv [OF assms] show ?thesis by simp
next
  case (Refresh_token env)
  with refresh_token_inv [OF assms] show ?thesis by simp
next
  case (Loop_round i env)
  with token_refresh_loop_inv [OF assms] show ?thesis by simp
next
  case (Api load)
  with held_inv(1) [OF api_held] assms show ?thesis by simp
next
  case (Register_reauth cb)
  have "held (register_reauth_callback cb s) = held s"
    by (simp add: register_reauth_callback_def)
  from held_inv(1) [OF this] assms Register_reauth show ?thesis by simp
next
  case (Register_tan_status cb)
  have "held (register_tan_status_callback cb s) = held s"
    by (simp add: register_tan_status_callback_def)
  from held_inv(1) [OF this] assms Register_tan_status show ?thesis by simp
next
  case Close
  from assms have "referenced s" by (simp add: task_inv_def)
  from no_running_inv(1) [OF cancel_no_running [OF this]] have "task_inv (cancel_refresh_task s)"
    by (simp add: task_inv_def referenced_def token_pair_empty_def)
  with Close show ?thesis by (simp add: close_def)
qed

lemma run_inv:
  assumes "task_inv s"
  shows "task_inv (run acts s)"
  using assms by (induction acts arbitrary: s) (simp_all add: perform_inv)

lemma init_inv: "task_inv (init reauth tan threshold path file now readable)"
proof -
  let ?f = "fresh_client reauth tan threshold path file now"
  have n: "Running \<notin> set (tasks ?f)" by (simp add: fresh_client_def)
  have f: "task_inv ?f" by (rule no_running_inv(1) [OF n])
  have "task_inv (start_refresh_task
      (?f\<lparr>s_access_token := Some a, s_refresh_token := Some r, s_token_expiry := Some e\<rparr>))"
    for a r e
  proof -
    have "referenced (?f\<lparr>s_access_token := Some a, s_refresh_token := Some r,
        s_token_expiry := Some e\<rparr>)"
      by (simp add: referenced_def fresh_client_def)
    from start_refresh_task_running(2) [OF this] show ?thesis
      by (intro inv_nonempty) simp_all
  qed
  with f show ?thesis
    by (simp add: init_def restore_tokens_from_storage_def split: option.splits prod.splits)
qed

section \<open>The claims\<close>






text \<open>
  Claim C3, as amended. When a direct call of \<^verbatim>\<open>refresh_token()\<close> gets the answer
  401, it returns \<^verbatim>\<open>False\<close> and emits one notification, with the reason
  \<^verbatim>\<open>token_refresh_failed\<close>; the notification itself clears the Token Pair
  (\<^verbatim>\<open>_invoke_reauth_callback\<close> begins with \<^verbatim>\<open>_clear_tokens\<close>), the token
  file is not touched, and a second call returns \<^verbatim>\<open>False\<close> at once, without a
  request, for want of a refresh token.
\<close>

theorem refresh_token_unauthorized:
  assumes "truthy (s_refresh_token s)"
    and "r_post env = Response 401 body"
    and "refresh_token env s = (res, s')"
  shows "res = Inr False \<and>
         trace s' = trace s @ [Reauth_required ''token_refresh_failed''] \<and>
         s_access_token s' = None \<and> s_refresh_token s' = None \<and> s_token_expiry s' = None \<and>
         token_file s' = token_file s \<and>
         refresh_token env' s' = (Inr False, s')"
  using assms by (auto simp: refresh_token_def Let_def)

theorem refresh_token_unauthorized_witness:
  "truthy (s_refresh_token client0) \<and>
   fst (refresh_token (refresh_env_of (Response 401 None)) client0) = Inr False \<and>
   trace (snd (refresh_token (refresh_env_of (Response 401 None)) client0)) =
     trace client0 @ [Reauth_required ''token_refresh_failed''] \<and>
   s_refresh_token (snd (refresh_token (refresh_env_of (Response 401 None)) client0)) = None"
proof -
  have h: "truthy (s_refresh_token client0)"
    by code_simp
  have p: "r_post (refresh_env_of (Response 401 None)) = Response 401 None"
    by (simp add: refresh_env_of_def)
  from refresh_token_unauthorized [OF h p, of
      "fst (refresh_token (refresh_env_of (Response 401 None)) client0)"
      "snd (refresh_token (refresh_env_of (Response 401 None)) client0)"] h
  show ?thesis by simp
qed

text \<open>
  Claim C3 as stated fails: after the answer 401 the caller no longer holds the refresh token.
\<close>

theorem refresh_token_keeps_pair_counterexample:
  "fst (refresh_token (refresh_env_of (Response 401 None)) client0) = Inr False \<and>
   s_refresh_token client0 = Some ''r0'' \<and>
   s_refresh_token (snd (refresh_token (refresh_env_of (Response 401 None)) client0)) = None"
  by code_simp

text \<open>
  Claim C4. When the refresh request times out, or is answered with a status that is neither
  2xx nor 401, \<^verbatim>\<open>refresh_token()\<close> returns \<^verbatim>\<open>False\<close>; the access token,
  the refresh token, the expiry and the token file are as before the call; nothing is added to
  the trace, so no reauth notification is emitted; no task is cancelled.
\<close>

theorem refresh_token_transient_failure:
  assumes "r_post env = Timeout \<or>
           (\<exists>code body. r_post env = Response code body \<and> code \<noteq> 401 \<and> \<not> is_success code)"
    and "refresh_token env s = (res, s')"
  shows "res = Inr False \<and>
         s_access_token s' = s_access_token s \<and>
         s_refresh_token s' = s_refresh_token s \<and>
         s_token_expiry s' = s_token_expiry s \<and>
         token_file s' = token_file s \<and>
         trace s' = trace s \<and>
         tasks s' = tasks s"
  using assms by (auto simp: refresh_token_def Let_def split: if_splits)

theorem refresh_token_transient_failure_witness:
  "fst (refresh_token (refresh_env_of (Response 503 None)) client0) = Inr False \<and>
   s_refresh_token (snd (refresh_token (refresh_env_of (Response 503 None)) client0)) = Some ''r0'' \<and>
   trace (snd (refresh_token (refresh_env_of (Response 503 None)) client0)) = trace client0"
proof -
  have h: "r_post (refresh_env_of (Response 503 None)) = Timeout \<or>
           (\<exists>code body. r_post (refresh_env_of (Response 503 None)) = Response code body \<and>
              code \<noteq> 401 \<and> \<not> is_success code)"
    by (simp add: refresh_env_of_def is_success_def)
  have r: "s_refresh_token client0 = Some ''r0''"
    by code_simp
  from refresh_token_transient_failure [OF h, of client0
      "fst (refresh_token (refresh_env_of (Response 503 None)) client0)"
      "snd (refresh_token (refresh_env_of (Response 503 None)) client0)"] r
  show ?thesis by simp
qed

text \<open>
  Claim C5. When the polls are answered \<^verbatim>\<open>PENDING\<close>, \<^verbatim>\<open>PENDING\<close>,
  \<^verbatim>\<open>AUTHENTICATED\<close>, all with status 200 (the third answer exists only if the third
  request is made, that is if the first two rounds end within the 60 seconds), step 4 returns
  normally; it has slept one second before each of the three requests, the third request is
  made two seconds or more after the first, and exactly one notification \<^verbatim>\<open>approved\<close>
  is emitted.
\<close>

theorem tan_approval_scenario:
  assumes p0: "p_get (polls 0) = Response 200 (Some (Some ''PENDING''))"
    and p1: "p_get (polls 1) = Response 200 (Some (Some ''PENDING''))"
    and p2: "p_get (polls 2) = Response 200 (Some (Some ''AUTHENTICATED''))"
    and budget: "1000 + p_late (polls 0) + p_latency (polls 0) +
         1000 + p_late (polls 1) + p_latency (polls 1) < 60 * 1000"
    and run: "step4_poll_tan_approval polls poll_url tan_type s = (res, s')"
  shows "res = Inr () \<and>
         (\<exists>t1 t2 t3.
            filter is_io (emitted s s') =
              [Sleep 1000, Poll_request poll_url t1, Sleep 1000, Poll_request poll_url t2,
               Sleep 1000, Poll_request poll_url t3] \<and>
            2000 \<le> t3 - t1) \<and>
         length (filter (has_status ''approved'') (emitted s s')) = 1"
proof -
  define s0 where "s0 = invoke_tan_status_callback ''pending''
      [(''tan_type'', Py_str tan_type), (''timeout_seconds'', Py_int 60),
       (''elapsed_seconds'', Py_int 0)] s"
  have run0: "poll_loop polls poll_url tan_type (clock s) 0 s0 = (res, s')"
    using run by (simp add: step4_poll_tan_approval_def Let_def s0_def)
  have c0: "clock s0 = clock s" and t0: "trace s0 = trace s @ [Tan_status ''pending''
      [(''tan_type'', Py_str tan_type), (''timeout_seconds'', Py_int 60),
       (''elapsed_seconds'', Py_int 0)]]"
    by (simp_all add: s0_def)
  have "clock s0 - clock s < 60 * 1000" "retried (p_get (polls 0))"
    using c0 p0 by simp_all
  from poll_loop_retry [where s = s0 and start_time = "clock s" and polls = polls and n = 0
      and poll_url = poll_url and tan_type = tan_type, OF this]
  obtain sa ya where
    ra: "poll_loop polls poll_url tan_type (clock s) 0 s0 =
           poll_loop polls poll_url tan_type (clock s) (Suc 0) sa"
    and ca: "clock sa = clock s0 + 1000 + int (p_late (polls 0)) + int (p_latency (polls 0))"
    and ta: "trace sa = trace s0 @
          [Sleep 1000, Poll_request poll_url (clock s0 + 1000 + int (p_late (polls 0)))] @ ya"
    and ya: "list_all (has_status ''pending'') ya"
    by blast
  have "clock sa - clock s < 60 * 1000" "retried (p_get (polls (Suc 0)))"
    using ca c0 budget p1 by simp_all
  from poll_loop_retry [where s = sa and start_time = "clock s" and polls = polls
      and n = "Suc 0" and poll_url = poll_url and tan_type = tan_type, OF this]
  obtain sb yb where
    rb: "poll_loop polls poll_url tan_type (clock s) (Suc 0) sa =
           poll_loop polls poll_url tan_type (clock s) (Suc (Suc 0)) sb"
    and cb: "clock sb = clock sa + 1000 + int (p_late (polls (Suc 0)))
                 + int (p_latency (polls (Suc 0)))"
    and tb: "trace sb = trace sa @
          [Sleep 1000, Poll_request poll_url (clock sa + 1000 + int (p_late (polls (Suc 0))))] @ yb"
    and yb: "list_all (has_status ''pending'') yb"
    by blast
  have "clock sb - clock s < 60 * 1000"
       "p_get (polls (Suc (Suc 0))) = Response 200 (Some (Some ''AUTHENTICATED''))"
    using cb ca c0 budget p2 by (simp_all add: numeral_2_eq_2)
  from poll_loop_authenticated [where s = sb and start_time = "clock s" and polls = polls
      and n = "Suc (Suc 0)" and poll_url = poll_url and tan_type = tan_type, OF this]
  obtain sc data where
    rc: "poll_loop polls poll_url tan_type (clock s) (Suc (Suc 0)) sb = (Inr (), sc)"
    and tc: "trace sc = trace sb @
          [Sleep 1000, Poll_request poll_url (clock sb + 1000 + int (p_late (polls (Suc (Suc 0))))),
           Tan_status ''approved'' data]"
    by blast
  from run0 ra rb rc have res: "res = Inr ()" and s': "s' = sc"
    by simp_all
  have em: "emitted s s' =
      [Tan_status ''pending'' [(''tan_type'', Py_str tan_type), (''timeout_seconds'', Py_int 60),
         (''elapsed_seconds'', Py_int 0)],
       Sleep 1000, Poll_request poll_url (clock s0 + 1000 + int (p_late (polls 0)))] @ ya @
      [Sleep 1000, Poll_request poll_url (clock sa + 1000 + int (p_late (polls (Suc 0))))] @ yb @
      [Sleep 1000, Poll_request poll_url (clock sb + 1000 + int (p_late (polls (Suc (Suc 0))))),
       Tan_status ''approved'' data]"
    by (simp add: emitted_def s' tc tb ta t0)
  have io: "filter is_io (emitted s s') =
      [Sleep 1000, Poll_request poll_url (clock s0 + 1000 + int (p_late (polls 0))),
       Sleep 1000, Poll_request poll_url (clock sa + 1000 + int (p_late (polls (Suc 0)))),
       Sleep 1000, Poll_request poll_url (clock sb + 1000 + int (p_late (polls (Suc (Suc 0)))))]"
    by (simp add: em filter_io_status [OF ya] filter_io_status [OF yb])
  have gap: "2000 \<le> (clock sb + 1000 + int (p_late (polls (Suc (Suc 0)))))
               - (clock s0 + 1000 + int (p_late (polls 0)))"
    using cb ca by simp
  have ap: "length (filter (has_status ''approved'') (emitted s s')) = 1"
    by (simp add: em filter_other_status [OF ya] filter_other_status [OF yb])
  from res io gap ap show ?thesis by blast
qed

theorem tan_approval_scenario_witness:
  "fst (step4_poll_tan_approval approval_polls ''/poll'' ''P_TAN_PUSH'' client0) = Inr () \<and>
   length (filter (has_status ''approved'')
     (emitted client0 (snd (step4_poll_tan_approval approval_polls ''/poll'' ''P_TAN_PUSH'' client0))))
     = 1"
  using tan_approval_scenario [of approval_polls "''/poll''" "''P_TAN_PUSH''" client0
      "fst (step4_poll_tan_approval approval_polls ''/poll'' ''P_TAN_PUSH'' client0)"
      "snd (step4_poll_tan_approval approval_polls ''/poll'' ''P_TAN_PUSH'' client0)"]
  by (simp add: approval_polls_def prompt_def)

text \<open>
  Claim C9. When \<^verbatim>\<open>is_authenticated()\<close> is false, which is when the access token or
  the expiry is absent, reading \<^verbatim>\<open>api\<close> raises \<^verbatim>\<open>RuntimeError\<close>, returns no
  client and changes nothing.
\<close>

theorem api_requires_authentication:
  assumes "\<not> is_authenticated s"
  shows "api load s = (Inl RuntimeError, s) \<and> (s_access_token s = None \<or> s_token_expiry s = None)"
  using assms by (simp add: api_def is_authenticated_def)

theorem api_requires_authentication_witness:
  "\<not> is_authenticated (fresh_client None None 120 False None 0) \<and>
   api (Inr SwaggerClient) (fresh_client None None 120 False None 0) =
     (Inl RuntimeError, fresh_client None None 120 False None 0)"
proof -
  have h: "\<not> is_authenticated (fresh_client None None 120 False None 0)"
    by (simp add: is_authenticated_def fresh_client_def)
  from api_requires_authentication [OF h] h show ?thesis
    by simp
qed




text \<open>
  Claim C7. When the answer to the challenge request has no header
  \<^verbatim>\<open>x-once-authentication-info\<close>, step 3 raises \<^verbatim>\<open>AuthenticationError\<close>
  whatever the body is, and so does \<^verbatim>\<open>authenticate()\<close> (whose steps 1 and 2 have
  succeeded, the request being made); what step 3 returns and leaves does not depend on the
  body of the answer.
\<close>

theorem tan_challenge_from_header_only:
  assumes "resp_headers response ''x-once-authentication-info'' = None"
    and "fst (step1_password_credentials (e_latency1 env) (e_post1 env) s) = Inr initial_token"
    and "fst (step2_session_status (e_latency2 env) (e_sessions env)
               (snd (step1_password_credentials (e_latency1 env) (e_post1 env) s)))
           = Inr session_uuid"
    and "e_challenge env = Result response"
  shows "fst (step3_tan_challenge latency (Result (response\<lparr>resp_body := b\<rparr>)) s0)
           = Inl AuthenticationError \<and>
         fst (authenticate env s) = Inl AuthenticationError \<and>
         step3_tan_challenge latency (Result \<lparr>resp_headers = h, resp_body = b\<rparr>) s0 =
           step3_tan_challenge latency (Result \<lparr>resp_headers = h, resp_body = b'\<rparr>) s0"
proof -
  obtain s1 where 1:
    "step1_password_credentials (e_latency1 env) (e_post1 env) s = (Inr initial_token, s1)"
    using assms(2) by (cases "step1_password_credentials (e_latency1 env) (e_post1 env) s") auto
  obtain s2 where 2:
    "step2_session_status (e_latency2 env) (e_sessions env) s1 = (Inr session_uuid, s2)"
    using assms(3) 1 by (cases "step2_session_status (e_latency2 env) (e_sessions env) s1") auto
  have 3: "fst (step3_tan_challenge l (Result (response\<lparr>resp_body := c\<rparr>)) t)
             = Inl AuthenticationError" for l c t
    using assms(1) by (simp add: step3_tan_challenge_def Let_def)
  from 3 [of "e_latency3 env" "resp_body response" s2]
  have "fst (authenticate env s) = Inl AuthenticationError"
    using 1 2 assms(4)
    by (auto simp: authenticate_def auth_failed_def split: prod.splits sum.splits)
  moreover have
    "step3_tan_challenge latency (Result \<lparr>resp_headers = h, resp_body = b\<rparr>) s0 =
     step3_tan_challenge latency (Result \<lparr>resp_headers = h, resp_body = b'\<rparr>) s0"
    by (simp add: step3_tan_challenge_def Let_def)
  ultimately show ?thesis
    using 3 by blast
qed

theorem tan_challenge_from_header_only_witness:
  "fst (authenticate env_no_header client0) = Inl AuthenticationError"
proof -
  have "resp_headers \<lparr>resp_headers = (\<lambda>k. None), resp_body = ''id c1 typ P_TAN_PUSH href /poll''\<rparr>
          ''x-once-authentication-info'' = None"
    by simp
  moreover have "fst (step1_password_credentials (e_latency1 env_no_header)
      (e_post1 env_no_header) client0) = Inr ''a1''"
    by code_simp
  moreover have "fst (step2_session_status (e_latency2 env_no_header) (e_sessions env_no_header)
               (snd (step1_password_credentials (e_latency1 env_no_header)
                  (e_post1 env_no_header) client0))) = Inr ''u1''"
    by code_simp
  moreover have "e_challenge env_no_header =
      Result \<lparr>resp_headers = (\<lambda>k. None), resp_body = ''id c1 typ P_TAN_PUSH href /poll''\<rparr>"
    by (simp add: env_no_header_def)
  ultimately show ?thesis
    using tan_challenge_from_header_only [of _ env_no_header client0 "''a1''" "''u1''"]
    by blast
qed

text \<open>
  Claim C8. Two clients that differ only in their observers (and in the log of observer
  errors) get the same result from \<^verbatim>\<open>authenticate()\<close> and from
  \<^verbatim>\<open>refresh_token()\<close>, and are left by them, by a round of the refresh loop and by
  any sequence of calls and rounds in states that again differ only there: an observer that
  raises changes the error log and nothing else. The observers raise subclasses of
  \<^verbatim>\<open>Exception\<close>, which is what the dispatcher catches.
\<close>

theorem observer_failure_swallowed:
  assumes "core s1 = core s2"
  shows "fst (authenticate env s1) = fst (authenticate env s2) \<and>
         core (snd (authenticate env s1)) = core (snd (authenticate env s2)) \<and>
         fst (refresh_token renv s1) = fst (refresh_token renv s2) \<and>
         core (snd (refresh_token renv s1)) = core (snd (refresh_token renv s2)) \<and>
         core (token_refresh_loop i lenv s1) = core (token_refresh_loop i lenv s2) \<and>
         core (run acts s1) = core (run acts s2)"
proof -
  have "authenticate env (core s1) = authenticate env (core s2)"
       "refresh_token renv (core s1) = refresh_token renv (core s2)"
       "token_refresh_loop i lenv (core s1) = token_refresh_loop i lenv (core s2)"
    using assms by simp_all
  then have "apsnd core (authenticate env s1) = apsnd core (authenticate env s2)"
       "apsnd core (refresh_token renv s1) = apsnd core (refresh_token renv s2)"
       "core (token_refresh_loop i lenv s1) = core (token_refresh_loop i lenv s2)"
    by (simp_all add: authenticate_core refresh_token_core token_refresh_loop_core)
  then show ?thesis
    using run_core [OF assms, of acts]
    by (simp add: prod_eq_iff)
qed

theorem observer_failure_swallowed_witness:
  "core (raising client0) = core (returning client0) \<and>
   fst (authenticate env_ok (raising client0)) = fst (authenticate env_ok (returning client0)) \<and>
   core (snd (authenticate env_ok (raising client0))) =
     core (snd (authenticate env_ok (returning client0))) \<and>
   observer_errors (snd (authenticate env_ok (raising client0))) \<noteq>
     observer_errors (snd (authenticate env_ok (returning client0)))"
proof -
  have h: "core (raising client0) = core (returning client0)"
    by (simp add: raising_def returning_def)
  have a: "observer_errors (snd (authenticate env_ok (raising client0))) =
      [''Error in TAN status callback'', ''Error in TAN status callback'',
       ''Error in TAN status callback'']"
    by code_simp
  have b: "observer_errors (snd (authenticate env_ok (returning client0))) = []"
    by code_simp
  from observer_failure_swallowed [OF h, of env_ok] h a b show ?thesis
    by simp
qed

text \<open>
  Claim C10. In every state a client reaches from its construction by calls of its public
  methods and rounds of the refresh loop, at most one refresh task is alive, and none when the
  Token Pair is empty; \<^verbatim>\<open>_start_refresh_task\<close> leaves exactly the new task alive;
  \<^verbatim>\<open>_clear_tokens\<close>, a reauth notification and a failed \<^verbatim>\<open>authenticate()\<close>
  leave none alive.
\<close>

theorem one_refresh_task:
  assumes "s = run acts (init reauth tan threshold path file now readable)"
  shows "length (running s) \<le> 1 \<and>
         (token_pair_empty s \<longrightarrow> running s = []) \<and>
         running (start_refresh_task s) = [Running] \<and>
         running (clear_tokens s) = [] \<and>
         running (invoke_reauth_callback reason s) = [] \<and>
         (fst (authenticate env s) = Inl e \<longrightarrow> running (snd (authenticate env s)) = [])"
proof -
  have i: "task_inv s"
    unfolding assms by (rule run_inv [OF init_inv])
  then have r: "referenced s" by (simp add: task_inv_def)
  have 1: "length (running s) \<le> 1" by (rule referenced_running [OF r])
  have 2: "token_pair_empty s \<longrightarrow> running s = []"
    using i no_running_inv(2) [of s] by (simp add: task_inv_def)
  have 6: "running (snd (authenticate env s)) = []" if "fst (authenticate env s) = Inl e"
  proof -
    from that have "authenticate env s = (Inl e, snd (authenticate env s))"
      by (simp add: prod_eq_iff)
    from authenticate_failure [OF this]
    have "token_pair_empty (snd (authenticate env s))"
      by (simp add: token_pair_empty_def)
    with authenticate_inv [OF i, of env]
      no_running_inv(2) [of "snd (authenticate env s)"] show ?thesis
      by (simp add: task_inv_def)
  qed
  from 1 2 start_refresh_task_running(1) [OF r] clear_tokens_inv(2) [OF r]
    invoke_reauth_callback_inv(2) [OF r] 6
  show ?thesis by blast
qed

theorem one_refresh_task_witness:
  "token_pair_empty example_run \<and> tasks example_run = [Cancel_requested, Cancel_requested] \<and>
   running example_run = [] \<and> running (start_refresh_task example_run) = [Running]"
proof -
  have e: "token_pair_empty example_run"
    unfolding token_pair_empty_def by code_simp
  have t: "tasks example_run = [Cancel_requested, Cancel_requested]"
    by code_simp
  from one_refresh_task [OF example_run_def] e t show ?thesis
    by simp
qed

end
